theory Spec2Isabelle
  imports Main "HOL-Library.AList" "HOL-Library.Sublist"
begin

section \<open>Python values, dictionaries and strings\<close>

text \<open>
  The client of \<^verbatim>\<open>src/kworker/api.py\<close> handles decoded JSON bodies and keyword
  arguments. Both are Python values; \<open>pyval\<close> covers the shapes the code inspects.
  A \<open>dict\<close> is an association list in insertion order with \<open>map_of\<close> as lookup.
  JSON numbers with a fractional part are left out of the model.
\<close>

datatype pyval =
    PNone
  | PBool bool
  | PInt int
  | PStr string
  | PList "pyval list"
  | PDict "(string \<times> pyval) list"

type_synonym params = "(string \<times> pyval) list"

text \<open>Python truthiness, as used by \<^verbatim>\<open>not x\<close> and \<^verbatim>\<open>x or y\<close>.\<close>

fun truthy :: "pyval \<Rightarrow> bool" where
  "truthy PNone = False"
| "truthy (PBool b) = b"
| "truthy (PInt i) = (i \<noteq> 0)"
| "truthy (PStr s) = (s \<noteq> [])"
| "truthy (PList xs) = (xs \<noteq> [])"
| "truthy (PDict kvs) = (kvs \<noteq> [])"

text \<open>Truthiness of an \<^verbatim>\<open>Optional[str]\<close> argument.\<close>

fun truthy_str :: "string option \<Rightarrow> bool" where
  "truthy_str None = False"
| "truthy_str (Some s) = (s \<noteq> [])"

text \<open>\<^verbatim>\<open>d.get(k)\<close> and \<^verbatim>\<open>d.get(k, default)\<close> on a dict.\<close>

definition dict_get :: "params \<Rightarrow> string \<Rightarrow> pyval" where
  "dict_get d k = (case map_of d k of None \<Rightarrow> PNone | Some v \<Rightarrow> v)"

definition dict_get_default :: "params \<Rightarrow> string \<Rightarrow> pyval \<Rightarrow> pyval" where
  "dict_get_default d k dflt = (case map_of d k of None \<Rightarrow> dflt | Some v \<Rightarrow> v)"

text \<open>
  \<^verbatim>\<open>str.lower()\<close> on code points below 256: the letters A to Z and the Latin-1
  capitals (192 to 222 without the multiplication sign 215) move up by 32. A \<open>char\<close>
  is one such code point; code points from 256 on are outside the model.
\<close>

definition lower_char :: "char \<Rightarrow> char" where
  "lower_char c =
     (let n = (of_char c :: nat) in
      if (65 \<le> n \<and> n \<le> 90) \<or> (192 \<le> n \<and> n \<le> 222 \<and> n \<noteq> 215)
      then char_of (n + 32) else c)"

definition lower :: "string \<Rightarrow> string" where
  "lower s = map lower_char s"

text \<open>\<^verbatim>\<open>sub in s\<close> on strings: \<open>sub\<close> occurs in \<open>s\<close> as a contiguous block.\<close>

fun contains :: "string \<Rightarrow> string \<Rightarrow> bool" where
  "contains sub [] = (sub = [])"
| "contains sub (c # cs) = (prefix sub (c # cs) \<or> contains sub cs)"

section \<open>Exceptions, requests, the transport and the client\<close>

text \<open>
  Modelled from the spec: the exception classes of \<^verbatim>\<open>exceptions.py\<close>, which is not
  among the sources. The spec's taxonomy lists them as separate kinds, each carrying a
  message, an optional code and an optional request context; every one is an
  \<^verbatim>\<open>Exception\<close>, none is a subclass of \<^verbatim>\<open>KworkAuthException\<close>, of
  \<^verbatim>\<open>aiohttp.ClientError\<close> or of \<^verbatim>\<open>json.JSONDecodeError\<close>, and \<^verbatim>\<open>str(e)\<close> is the
  message. The remaining classes are the library and builtin exceptions the code meets.
\<close>

datatype exn_class =
    KworkException
  | KworkApiException
  | KworkAuthException
  | KworkRateLimitException
  | KworkConnectionException
  | KworkValidationException
  | ClientError
  | JSONDecodeError
  | AttributeError
  | TypeError
  | KeyError
  | ModelError
  | OtherException

record request_info =
  ri_method :: string
  ri_url :: string
  ri_params :: params

datatype exn = Exn (exn_class: exn_class) (message: string) (code: pyval)
  (request_info: "request_info option") (cause: "exn option")

text \<open>One call of \<^verbatim>\<open>self.session.request\<close> as the transport sees it.\<close>

record http_request =
  req_method :: string
  req_url :: string
  req_authorization :: string
  req_params :: params
  req_timeout :: int

text \<open>
  What the transport does with a request: it raises an \<^verbatim>\<open>aiohttp.ClientError\<close>, it
  raises something else (a timeout of the event loop, say), or it delivers a response
  with a status, a content type, the body text and what \<^verbatim>\<open>resp.json()\<close> makes of the
  body (\<open>Inl\<close>: the text of the \<^verbatim>\<open>JSONDecodeError\<close>).
\<close>

datatype transport_outcome =
    Raises_ClientError string
  | Raises_Other string
  | Response nat string string "string + pyval"

text \<open>
  The remote service and the network are a function of the requests sent so far, the
  last element being the request to answer.
\<close>

type_synonym network = "http_request list \<Rightarrow> transport_outcome"

text \<open>The records written through \<^verbatim>\<open>logger\<close>, by source line.\<close>

datatype log_entry =
    Debug_Request string "string option" params
  | Debug_Response nat pyval
  | Warning_Auth_Retry
  | Error_Auth_Failed
  | Error_Unexpected
  | Error_Page_Failed string exn
  | Debug_Send_Message pyval

text \<open>
  The fields of \<^verbatim>\<open>KworkAPI\<close> (\<open>cached_token\<close> is \<^verbatim>\<open>self._token\<close>), with the requests
  that went out on the session and the log records written so far.
\<close>

record client =
  login :: string
  password :: string
  phone_last :: "string option"
  api_key :: string
  cached_token :: pyval
  sent :: "http_request list"
  logs :: "log_entry list"

section \<open>\<^verbatim>\<open>KworkAPI.request\<close>\<close>

text \<open>The message literals of the source are Russian; they are transliterated here.\<close>

definition msg_need_endpoint :: string where
  "msg_need_endpoint = ''Neobkhodimo ukazat api_method ili full_url''"

definition msg_bad_format :: string where
  "msg_bad_format = ''Nedopustimyi format otveta: ''"

definition msg_network :: string where
  "msg_network = ''Oshibka seti: ''"

definition msg_bad_json :: string where
  "msg_bad_json = ''Nedopustimyi json: ''"

definition msg_unknown :: string where
  "msg_unknown = ''Neizvestnaya oshibka: ''"

text \<open>
  \<^verbatim>\<open>BASE_URL\<close> is the template \<^verbatim>\<open>https://api.kwork.ru/{}\<close>; the constant below is its
  text before the placeholder, so that \<^verbatim>\<open>BASE_URL.format(x)\<close> is \<open>BASE_URL @ x\<close>.
\<close>

definition BASE_URL :: string where
  "BASE_URL = ''https://api.kwork.ru/''"

text \<open>Line 73: the parameters whose value is \<^verbatim>\<open>None\<close> are dropped.\<close>

definition drop_none :: "params \<Rightarrow> params" where
  "drop_none kwargs = filter (\<lambda>kv. snd kv \<noteq> PNone) kwargs"

text \<open>Lines 74 to 76: the copy that is logged and attached to errors.\<close>

definition redaction_marker :: pyval where
  "redaction_marker = PStr ''***''"

definition sanitize :: "params \<Rightarrow> params" where
  "sanitize ps =
     (let log_params = ps;
          log_params = (if map_of log_params ''password'' \<noteq> None
                        then AList.update ''password'' redaction_marker log_params
                        else log_params);
          log_params = (if map_of log_params ''token'' \<noteq> None
                        then AList.update ''token'' redaction_marker log_params
                        else log_params)
      in log_params)"

text \<open>Line 82: \<^verbatim>\<open>full_url or self.BASE_URL.format(api_method)\<close>.\<close>

definition build_url :: "string option \<Rightarrow> string option \<Rightarrow> string" where
  "build_url api_method full_url =
     (case full_url of
        Some u \<Rightarrow>
          (if u \<noteq> [] then u
           else BASE_URL @ (case api_method of None \<Rightarrow> ''None'' | Some a \<Rightarrow> a))
      | None \<Rightarrow> BASE_URL @ (case api_method of None \<Rightarrow> ''None'' | Some a \<Rightarrow> a))"

text \<open>Lines 99 to 105: the class of the exception raised for a failure message.\<close>

definition classify :: "string \<Rightarrow> exn_class" where
  "classify error_msg =
     (if contains ''limit'' (lower error_msg) then KworkRateLimitException
      else if contains ''auth'' (lower error_msg) \<or> contains ''token'' (lower error_msg)
      then KworkAuthException
      else KworkApiException)"

definition attribute_error :: "string \<Rightarrow> exn" where
  "attribute_error attr = Exn AttributeError attr PNone None None"

text \<open>Lines 95 to 105, entered when the success flag is falsy.\<close>

definition raise_failure :: "params \<Rightarrow> request_info \<Rightarrow> exn" where
  "raise_failure json_response ri =
     (case dict_get_default json_response ''error'' (PStr ''Unknown error'') of
        PStr error_msg \<Rightarrow>
          Exn (classify error_msg) error_msg (dict_get json_response ''error_code'') (Some ri) None
      | _ \<Rightarrow> attribute_error ''lower'')"

text \<open>Lines 91 to 106: the decoded body is inspected.\<close>

definition check_response ::
  "nat \<Rightarrow> pyval \<Rightarrow> request_info \<Rightarrow> (exn + pyval) \<times> log_entry list" where
  "check_response status json_response ri =
     (case json_response of
        PDict d \<Rightarrow>
          (if \<not> truthy (dict_get d ''success'')
           then (Inl (raise_failure d ri), [Debug_Response status (dict_get d ''success'')])
           else (Inr json_response, [Debug_Response status (dict_get d ''success'')]))
      | _ \<Rightarrow> (Inl (attribute_error ''get''), []))"

text \<open>
  Lines 86 to 106, the body of the \<^verbatim>\<open>try\<close>: the value it returns or the exception that
  leaves it, with the log records it writes.
\<close>

definition try_body ::
  "transport_outcome \<Rightarrow> request_info \<Rightarrow> (exn + pyval) \<times> log_entry list" where
  "try_body out ri =
     (case out of
        Raises_ClientError m \<Rightarrow> (Inl (Exn ClientError m PNone None None), [])
      | Raises_Other m \<Rightarrow> (Inl (Exn OtherException m PNone None None), [])
      | Response status content_type txt decoded \<Rightarrow>
          (if content_type \<noteq> ''application/json''
           then (Inl (Exn KworkApiException (msg_bad_format @ txt) (PInt (int status))
                        (Some ri) None), [])
           else (case decoded of
                   Inl m \<Rightarrow> (Inl (Exn JSONDecodeError m PNone None None), [])
                 | Inr json_response \<Rightarrow> check_response status json_response ri)))"

text \<open>
  Lines 120 to 126: the handlers after the one for \<^verbatim>\<open>KworkAuthException\<close>. The last,
  \<^verbatim>\<open>except Exception\<close>, takes every other exception that leaves the \<^verbatim>\<open>try\<close>, the
  client's own \<^verbatim>\<open>KworkRateLimitException\<close> and \<^verbatim>\<open>KworkApiException\<close> included.
\<close>

definition wrap :: "exn \<Rightarrow> request_info \<Rightarrow> exn \<times> log_entry list" where
  "wrap e ri =
     (if exn_class e = ClientError
      then (Exn KworkConnectionException (msg_network @ message e) PNone (Some ri) (Some e), [])
      else if exn_class e = JSONDecodeError
      then (Exn KworkApiException (msg_bad_json @ message e) PNone (Some ri) (Some e), [])
      else (Exn KworkException (msg_unknown @ message e) PNone (Some ri) (Some e),
            [Error_Unexpected]))"

definition mk_request ::
  "client \<Rightarrow> string \<Rightarrow> string \<Rightarrow> params \<Rightarrow> int \<Rightarrow> http_request" where
  "mk_request s meth url ps timeout =
     \<lparr>req_method = meth, req_url = url, req_authorization = api_key s,
      req_params = ps, req_timeout = timeout\<rparr>"

definition sign_in_params :: "client \<Rightarrow> params" where
  "sign_in_params s =
     [(''login'', PStr (login s)), (''password'', PStr (password s)),
      (''phone_last'', (case phone_last s of None \<Rightarrow> PNone | Some p \<Rightarrow> PStr p))]"

text \<open>Line 83: the request context attached to the exceptions.\<close>

definition info :: "string \<Rightarrow> string option \<Rightarrow> string option \<Rightarrow> params \<Rightarrow> request_info" where
  "info meth api_method full_url params =
     \<lparr>ri_method = meth, ri_url = build_url api_method full_url, ri_params = sanitize params\<rparr>"

text \<open>
  Lines 85 to 106: one attempt. The request goes out on the session, and the body of
  the \<^verbatim>\<open>try\<close> returns the decoded response or is left by an exception.
\<close>

definition attempt ::
  "network \<Rightarrow> string \<Rightarrow> string option \<Rightarrow> string option \<Rightarrow> int \<Rightarrow> params \<Rightarrow> client
     \<Rightarrow> (exn + pyval) \<times> client" where
  "attempt net meth api_method full_url timeout params s =
     (let url = build_url api_method full_url;
          s2 = s\<lparr>sent := sent s @ [mk_request s meth url params timeout]\<rparr>;
          res = try_body (net (sent s2)) (info meth api_method full_url params)
      in (fst res, s2\<lparr>logs := logs s2 @ snd res\<rparr>))"

text \<open>
  \<^verbatim>\<open>request\<close>, the \<^verbatim>\<open>token\<close> property and \<^verbatim>\<open>get_token\<close> call each other: a request
  answered by an authentication failure refreshes the token, which signs in through
  \<^verbatim>\<open>request\<close>. Nothing in the source bounds that recursion (a sign-in that is itself
  answered by an authentication failure signs in again), so the first argument is fuel:
  \<open>None\<close> means the fuel ran out. An exception raised to the caller is \<open>Inl\<close>.
\<close>

fun request ::
  "nat \<Rightarrow> network \<Rightarrow> string \<Rightarrow> string option \<Rightarrow> string option \<Rightarrow> int \<Rightarrow> bool \<Rightarrow> params
     \<Rightarrow> client \<Rightarrow> ((exn + pyval) \<times> client) option"
and token :: "nat \<Rightarrow> network \<Rightarrow> client \<Rightarrow> ((exn + pyval) \<times> client) option"
and get_token :: "nat \<Rightarrow> network \<Rightarrow> client \<Rightarrow> ((exn + pyval) \<times> client) option"
where
  "request 0 net meth api_method full_url timeout retried kwargs s = None"
| "request (Suc n) net meth api_method full_url timeout retried kwargs s =
    (let params = drop_none kwargs;
         log_params = sanitize params;
         s1 = s\<lparr>logs := logs s @ [Debug_Request meth api_method log_params]\<rparr>
     in
     if \<not> (truthy_str api_method \<or> truthy_str full_url)
     then Some (Inl (Exn KworkApiException msg_need_endpoint PNone None None), s1)
     else
       (case attempt net meth api_method full_url timeout params s1 of
          (Inr json_response, s3) \<Rightarrow> Some (Inr json_response, s3)
        | (Inl e, s3) \<Rightarrow>
            if exn_class e = KworkAuthException then
              (if \<not> retried then
                 (case token n net
                         (s3\<lparr>logs := logs s3 @ [Warning_Auth_Retry], cached_token := PNone\<rparr>) of
                    None \<Rightarrow> None
                  | Some (Inl e', s4) \<Rightarrow> Some (Inl e', s4)
                  | Some (Inr t, s4) \<Rightarrow>
                      request n net meth api_method full_url timeout True
                        (AList.update ''token'' t params) s4)
               else Some (Inl e, s3\<lparr>logs := logs s3 @ [Error_Auth_Failed]\<rparr>))
            else
              Some (Inl (fst (wrap e (info meth api_method full_url params))),
                    s3\<lparr>logs := logs s3 @ snd (wrap e (info meth api_method full_url params))\<rparr>)))"
| "token n net s =
    (if cached_token s = PNone then
       (case get_token n net s of
          None \<Rightarrow> None
        | Some (Inl e, s1) \<Rightarrow> Some (Inl e, s1)
        | Some (Inr t, s1) \<Rightarrow> Some (Inr t, s1\<lparr>cached_token := t\<rparr>))
     else Some (Inr (cached_token s), s))"
| "get_token n net s =
    (case request n net ''post'' (Some ''signIn'') None 10 False (sign_in_params s) s of
       None \<Rightarrow> None
     | Some (Inl e, s1) \<Rightarrow> Some (Inl e, s1)
     | Some (Inr resp, s1) \<Rightarrow>
         (case resp of
            PDict d \<Rightarrow>
              (case dict_get_default d ''response'' (PDict []) of
                 PDict r \<Rightarrow>
                   (if \<not> truthy (dict_get r ''token'')
                    then Some (Inl (Exn KworkAuthException
                                 ''Failed to retrieve token from signIn response.''
                                 PNone None None), s1)
                    else Some (Inr (dict_get r ''token''), s1))
               | _ \<Rightarrow> Some (Inl (attribute_error ''get''), s1))
          | _ \<Rightarrow> Some (Inl (attribute_error ''get''), s1)))"

section \<open>Record construction\<close>

text \<open>
  \<^verbatim>\<open>model(**item)\<close>: the record classes (pydantic models) are parameters of the
  operations below, as functions from the keyword arguments to the record or to the
  exception the constructor raises. An item that is no mapping cannot be unpacked.
\<close>

definition type_error :: "string \<Rightarrow> exn" where
  "type_error m = Exn TypeError m PNone None None"

definition construct :: "(params \<Rightarrow> exn + 'r) \<Rightarrow> pyval \<Rightarrow> exn + 'r" where
  "construct model item =
     (case item of
        PDict kv \<Rightarrow> model kv
      | _ \<Rightarrow> Inl (type_error ''argument after ** must be a mapping''))"

fun construct_all :: "(params \<Rightarrow> exn + 'r) \<Rightarrow> pyval list \<Rightarrow> exn + 'r list" where
  "construct_all model [] = Inr []"
| "construct_all model (item # items) =
     (case construct model item of
        Inl e \<Rightarrow> Inl e
      | Inr r \<Rightarrow>
          (case construct_all model items of
             Inl e \<Rightarrow> Inl e
           | Inr rs \<Rightarrow> Inr (r # rs)))"

text \<open>What a \<^verbatim>\<open>for\<close> loop or \<^verbatim>\<open>list.extend\<close> draws from a value.\<close>

definition iter :: "pyval \<Rightarrow> exn + pyval list" where
  "iter v =
     (case v of
        PList xs \<Rightarrow> Inr xs
      | PDict kvs \<Rightarrow> Inr (map (\<lambda>kv. PStr (fst kv)) kvs)
      | PStr s \<Rightarrow> Inr (map (\<lambda>c. PStr [c]) s)
      | _ \<Rightarrow> Inl (type_error ''object is not iterable''))"

text \<open>The comprehension \<^verbatim>\<open>[model(**item) for item in v]\<close>.\<close>

definition records :: "(params \<Rightarrow> exn + 'r) \<Rightarrow> pyval \<Rightarrow> exn + 'r list" where
  "records model v =
     (case iter v of
        Inl e \<Rightarrow> Inl e
      | Inr items \<Rightarrow> construct_all model items)"

section \<open>\<^verbatim>\<open>KworkAPI._fetch_paginated_data\<close>\<close>

text \<open>\<^verbatim>\<open>results.extend(v)\<close>: only a list has \<^verbatim>\<open>extend\<close>.\<close>

definition extend :: "pyval \<Rightarrow> pyval \<Rightarrow> exn + pyval" where
  "extend results v =
     (case results of
        PList xs \<Rightarrow>
          (case iter v of
             Inl e \<Rightarrow> Inl e
           | Inr ys \<Rightarrow> Inr (PList (xs @ ys)))
      | _ \<Rightarrow> Inl (attribute_error ''extend''))"

text \<open>\<^verbatim>\<open>v.get(k, default)\<close> on any value: only a dict has \<^verbatim>\<open>get\<close>.\<close>

definition py_get :: "pyval \<Rightarrow> string \<Rightarrow> pyval \<Rightarrow> exn + pyval" where
  "py_get v k dflt =
     (case v of
        PDict d \<Rightarrow> Inr (dict_get_default d k dflt)
      | _ \<Rightarrow> Inl (attribute_error ''get''))"

text \<open>
  The operand of \<^verbatim>\<open>paging.get("pages", 1) <= 1\<close> as an integer (\<^verbatim>\<open>bool\<close> is a
  subclass of \<^verbatim>\<open>int\<close>); other values do not compare with \<^verbatim>\<open>1\<close>.
\<close>

definition page_count :: "pyval \<Rightarrow> exn + int" where
  "page_count v =
     (case v of
        PInt n \<Rightarrow> Inr n
      | PBool b \<Rightarrow> Inr (if b then 1 else 0)
      | _ \<Rightarrow> Inl (type_error ''<= not supported''))"

text \<open>
  Lines 161 to 166: \<^verbatim>\<open>asyncio.gather(*tasks, return_exceptions=True)\<close> yields one
  outcome per task, in the order of the tasks, an exception being an outcome like any
  other. The model runs the tasks one after the other in that order, which is one of
  the schedules of the event loop.
\<close>

fun gather ::
  "nat \<Rightarrow> network \<Rightarrow> string \<Rightarrow> params \<Rightarrow> int list \<Rightarrow> client
     \<Rightarrow> ((exn + pyval) list \<times> client) option" where
  "gather fuel net api_method params [] s = Some ([], s)"
| "gather fuel net api_method params (page # pages) s =
     (case request fuel net ''post'' (Some api_method) None 10 False
             ((''page'', PInt page) # params) s of
        None \<Rightarrow> None
      | Some (r, s1) \<Rightarrow>
          (case gather fuel net api_method params pages s1 of
             None \<Rightarrow> None
           | Some (rs, s2) \<Rightarrow> Some (r # rs, s2)))"

text \<open>Lines 168 to 172: the loop over the gathered outcomes.\<close>

fun merge_pages ::
  "string \<Rightarrow> (exn + pyval) list \<Rightarrow> pyval \<Rightarrow> client \<Rightarrow> (exn + pyval) \<times> client" where
  "merge_pages api_method [] results s = (Inr results, s)"
| "merge_pages api_method (Inl e # rest) results s =
     merge_pages api_method rest results
       (s\<lparr>logs := logs s @ [Error_Page_Failed api_method e]\<rparr>)"
| "merge_pages api_method (Inr response # rest) results s =
     (case py_get response ''response'' (PList []) of
        Inl e \<Rightarrow> (Inl e, s)
      | Inr v \<Rightarrow>
          (case extend results v of
             Inl e \<Rightarrow> (Inl e, s)
           | Inr results' \<Rightarrow> merge_pages api_method rest results' s))"

text \<open>
  Lines 152 to 174. The keyword arguments collected in \<^verbatim>\<open>params\<close> are passed on to
  \<^verbatim>\<open>request\<close> beside \<^verbatim>\<open>page\<close>; a second \<^verbatim>\<open>page\<close> among them is a
  \<^verbatim>\<open>TypeError\<close> of the call. They are taken not to hold the names of the other
  parameters of \<^verbatim>\<open>request\<close>, as is the case for the callers in the source.
\<close>

definition fetch_paginated_data ::
  "nat \<Rightarrow> network \<Rightarrow> (params \<Rightarrow> exn + 'r) \<Rightarrow> string \<Rightarrow> params \<Rightarrow> client
     \<Rightarrow> ((exn + 'r list) \<times> client) option" where
  "fetch_paginated_data fuel net model api_method params s =
     (if map_of params ''page'' \<noteq> None
      then Some (Inl (type_error ''multiple values for keyword argument page''), s)
      else
        (case request fuel net ''post'' (Some api_method) None 10 False
                ((''page'', PInt 1) # params) s of
           None \<Rightarrow> None
         | Some (Inl e, s1) \<Rightarrow> Some (Inl e, s1)
         | Some (Inr first_page_data, s1) \<Rightarrow>
             (case first_page_data of
                PDict d \<Rightarrow>
                  (if \<not> truthy (dict_get d ''paging'')
                   then Some (records model (dict_get_default d ''response'' (PList [])), s1)
                   else
                     (case py_get (dict_get d ''paging'') ''pages'' (PInt 1) of
                        Inl e \<Rightarrow> Some (Inl e, s1)
                      | Inr pages \<Rightarrow>
                          (case page_count pages of
                             Inl e \<Rightarrow> Some (Inl e, s1)
                           | Inr total_pages \<Rightarrow>
                               if total_pages \<le> 1
                               then Some (records model
                                            (dict_get_default d ''response'' (PList [])), s1)
                               else
                                 (case gather fuel net api_method params [2..total_pages] s1 of
                                    None \<Rightarrow> None
                                  | Some (other_pages_responses, s2) \<Rightarrow>
                                      (case merge_pages api_method other_pages_responses
                                              (dict_get_default d ''response'' (PList [])) s2 of
                                         (Inl e, s3) \<Rightarrow> Some (Inl e, s3)
                                       | (Inr results, s3) \<Rightarrow>
                                           Some (records model results, s3))))))
              | _ \<Rightarrow> Some (Inl (attribute_error ''get''), s1))))"

section \<open>\<^verbatim>\<open>KworkAPI.get_all_dialogs\<close>\<close>

text \<open>\<^verbatim>\<open>v[k]\<close> with a string key.\<close>

definition subscript :: "pyval \<Rightarrow> string \<Rightarrow> exn + pyval" where
  "subscript v k =
     (case v of
        PDict d \<Rightarrow>
          (case map_of d k of
             None \<Rightarrow> Inl (Exn KeyError k PNone None None)
           | Some x \<Rightarrow> Inr x)
      | _ \<Rightarrow> Inl (type_error ''indices must be integers''))"

definition dialogs_params :: "pyval \<Rightarrow> int \<Rightarrow> params" where
  "dialogs_params tok page =
     [(''filter'', PStr ''all''), (''page'', PInt page), (''token'', tok)]"

text \<open>
  Lines 183 to 188. The loop ends only when a page comes back with a falsy
  \<^verbatim>\<open>response\<close>, so its first argument bounds the number of rounds; the second is the
  fuel of each request.
\<close>

fun dialogs_loop ::
  "nat \<Rightarrow> nat \<Rightarrow> network \<Rightarrow> (params \<Rightarrow> exn + 'r) \<Rightarrow> pyval \<Rightarrow> int \<Rightarrow> 'r list \<Rightarrow> client
     \<Rightarrow> ((exn + 'r list) \<times> client) option" where
  "dialogs_loop 0 fuel net model tok page dialogs s = None"
| "dialogs_loop (Suc k) fuel net model tok page dialogs s =
     (case request fuel net ''post'' (Some ''dialogs'') None 10 False
             (dialogs_params tok page) s of
        None \<Rightarrow> None
      | Some (Inl e, s1) \<Rightarrow> Some (Inl e, s1)
      | Some (Inr dialogs_page, s1) \<Rightarrow>
          (case subscript dialogs_page ''response'' of
             Inl e \<Rightarrow> Some (Inl e, s1)
           | Inr resp \<Rightarrow>
               if \<not> truthy resp then Some (Inr dialogs, s1)
               else
                 (case records model resp of
                    Inl e \<Rightarrow> Some (Inl e, s1)
                  | Inr rs \<Rightarrow>
                      dialogs_loop k fuel net model tok (page + 1) (dialogs @ rs) s1)))"

definition get_all_dialogs ::
  "nat \<Rightarrow> network \<Rightarrow> (params \<Rightarrow> exn + 'r) \<Rightarrow> client \<Rightarrow> ((exn + 'r list) \<times> client) option" where
  "get_all_dialogs fuel net model s =
     (case token fuel net s of
        None \<Rightarrow> None
      | Some (Inl e, s1) \<Rightarrow> Some (Inl e, s1)
      | Some (Inr tok, s1) \<Rightarrow> dialogs_loop fuel fuel net model tok 1 [] s1)"

section \<open>\<^verbatim>\<open>KworkAPI.get_projects\<close> and \<^verbatim>\<open>KworkAPI.send_message\<close>\<close>

text \<open>A category id is an \<^verbatim>\<open>int\<close> or a \<^verbatim>\<open>str\<close>; \<^verbatim>\<open>str(c)\<close> prints it.\<close>

datatype category_id = Cat_Int int | Cat_Str string

fun digits :: "nat \<Rightarrow> string" where
  "digits n = (if n < 10 then [char_of (48 + n)] else digits (n div 10) @ [char_of (48 + n mod 10)])"

declare digits.simps [simp del]

fun str_category :: "category_id \<Rightarrow> string" where
  "str_category (Cat_Int i) = (if i < 0 then CHR ''-'' # digits (nat (- i)) else digits (nat i))"
| "str_category (Cat_Str s) = s"

fun join :: "string \<Rightarrow> string list \<Rightarrow> string" where
  "join sep [] = []"
| "join sep [x] = x"
| "join sep (x # y # ys) = x @ sep @ join sep (y # ys)"

definition msg_categories_empty :: string where
  "msg_categories_empty = ''categories_ids cannot be empty''"

definition common_params ::
  "category_id list \<Rightarrow> pyval \<Rightarrow> pyval \<Rightarrow> pyval \<Rightarrow> pyval \<Rightarrow> pyval \<Rightarrow> pyval \<Rightarrow> pyval \<Rightarrow> params" where
  "common_params categories_ids price_from price_to hiring_from kworks_filter_from
       kworks_filter_to query tok =
     [(''categories'', PStr (join '','' (map str_category categories_ids))),
      (''price_from'', price_from),
      (''price_to'', price_to),
      (''hiring_from'', hiring_from),
      (''kworks_filter_from'', kworks_filter_from),
      (''kworks_filter_to'', kworks_filter_to),
      (''query'', query),
      (''token'', tok)]"

definition get_projects ::
  "nat \<Rightarrow> network \<Rightarrow> (params \<Rightarrow> exn + 'r) \<Rightarrow> category_id list \<Rightarrow> pyval \<Rightarrow> pyval \<Rightarrow> pyval
     \<Rightarrow> pyval \<Rightarrow> pyval \<Rightarrow> pyval \<Rightarrow> pyval \<Rightarrow> client \<Rightarrow> ((exn + 'r list) \<times> client) option" where
  "get_projects fuel net model categories_ids price_from price_to hiring_from
       kworks_filter_from kworks_filter_to page query s =
     (if categories_ids = []
      then Some (Inl (Exn KworkValidationException msg_categories_empty PNone None None), s)
      else
        (case token fuel net s of
           None \<Rightarrow> None
         | Some (Inl e, s1) \<Rightarrow> Some (Inl e, s1)
         | Some (Inr tok, s1) \<Rightarrow>
             if page \<noteq> PNone then
               (case request fuel net ''post'' (Some ''projects'') None 10 False
                       ((''page'', page) #
                        common_params categories_ids price_from price_to hiring_from
                          kworks_filter_from kworks_filter_to query tok) s1 of
                  None \<Rightarrow> None
                | Some (Inl e, s2) \<Rightarrow> Some (Inl e, s2)
                | Some (Inr raw_projects, s2) \<Rightarrow>
                    (case py_get raw_projects ''response'' (PList []) of
                       Inl e \<Rightarrow> Some (Inl e, s2)
                     | Inr v \<Rightarrow> Some (records model v, s2)))
             else
               fetch_paginated_data fuel net model ''projects''
                 (common_params categories_ids price_from price_to hiring_from
                    kworks_filter_from kworks_filter_to query tok) s1))"

definition msg_message_empty :: string where
  "msg_message_empty = ''user_id i text ne mogut byt pustymi''"

definition send_message ::
  "nat \<Rightarrow> network \<Rightarrow> pyval \<Rightarrow> pyval \<Rightarrow> client \<Rightarrow> ((exn + pyval) \<times> client) option" where
  "send_message fuel net user_id txt s =
     (if \<not> truthy txt \<or> \<not> truthy user_id
      then Some (Inl (Exn KworkValidationException msg_message_empty PNone None None), s)
      else
        (case token fuel net (s\<lparr>logs := logs s @ [Debug_Send_Message user_id]\<rparr>) of
           None \<Rightarrow> None
         | Some (Inl e, s1) \<Rightarrow> Some (Inl e, s1)
         | Some (Inr tok, s1) \<Rightarrow>
             request fuel net ''post'' (Some ''inboxCreate'') None 10 False
               [(''user_id'', user_id), (''text'', txt), (''token'', tok)] s1))"

section \<open>Predicates of the properties\<close>

text \<open>
  A parameter map is redacted when every entry under the keys \<^verbatim>\<open>password\<close> and
  \<^verbatim>\<open>token\<close> holds the marker. An exception is redacted when its request context is,
  and so is the exception it was raised from; a log record is redacted when the
  parameter map or the exception it prints is.
\<close>

definition sensitive :: "string \<Rightarrow> bool" where
  "sensitive k = (k = ''password'' \<or> k = ''token'')"

definition redacted :: "params \<Rightarrow> bool" where
  "redacted ps = list_all (\<lambda>kv. \<not> sensitive (fst kv) \<or> snd kv = redaction_marker) ps"

fun exn_redacted :: "exn \<Rightarrow> bool" where
  "exn_redacted (Exn c m cd ri cs) =
     ((case ri of None \<Rightarrow> True | Some r \<Rightarrow> redacted (ri_params r)) \<and>
      (case cs of None \<Rightarrow> True | Some e \<Rightarrow> exn_redacted e))"

fun log_redacted :: "log_entry \<Rightarrow> bool" where
  "log_redacted (Debug_Request m a ps) = redacted ps"
| "log_redacted (Error_Page_Failed a e) = exn_redacted e"
| "log_redacted (Debug_Response st v) = True"
| "log_redacted Warning_Auth_Retry = True"
| "log_redacted Error_Auth_Failed = True"
| "log_redacted Error_Unexpected = True"
| "log_redacted (Debug_Send_Message v) = True"

text \<open>
  A call takes the client from \<open>s\<close> to \<open>s'\<close>: requests and log records are only
  added, and the credentials and the key stay as they are.
\<close>

definition extends :: "client \<Rightarrow> client \<Rightarrow> bool" where
  "extends s s' =
     (prefix (sent s) (sent s') \<and> prefix (logs s) (logs s') \<and> login s' = login s \<and>
      password s' = password s \<and> phone_last s' = phone_last s \<and> api_key s' = api_key s)"

text \<open>The log records written between \<open>s\<close> and \<open>s'\<close> are redacted.\<close>

definition redacts :: "client \<Rightarrow> client \<Rightarrow> bool" where
  "redacts s s' =
     (prefix (logs s) (logs s') \<and> list_all log_redacted (drop (length (logs s)) (logs s')))"

text \<open>The outcome of a call is an exception of the given class.\<close>

definition raises :: "exn + 'a \<Rightarrow> exn_class \<Rightarrow> bool" where
  "raises r c = (case r of Inl e \<Rightarrow> exn_class e = c | Inr v \<Rightarrow> False)"

section \<open>Example clients, services and record classes\<close>

definition example_client :: client where
  "example_client =
     \<lparr>login = ''worker'', password = ''hunter2'', phone_last = None,
      api_key = ''Basic bW9iaWxlX2FwaTpxRnZmUmw3dw=='',
      cached_token = PStr ''stale'', sent = [], logs = []\<rparr>"

definition fresh_client :: client where
  "fresh_client = example_client\<lparr>cached_token := PNone\<rparr>"

definition json_reply :: "pyval \<Rightarrow> transport_outcome" where
  "json_reply v = Response 200 ''application/json'' [] (Inr v)"

definition failure_body :: "string \<Rightarrow> pyval" where
  "failure_body m = PDict [(''success'', PBool False), (''error'', PStr m)]"

definition success_body :: "pyval \<Rightarrow> pyval" where
  "success_body v = PDict [(''success'', PBool True), (''response'', v)]"

definition paged_body :: "pyval \<Rightarrow> int \<Rightarrow> pyval" where
  "paged_body v n =
     PDict [(''success'', PBool True), (''response'', v),
            (''paging'', PDict [(''pages'', PInt n)])]"

definition item :: "int \<Rightarrow> pyval" where
  "item i = PDict [(''id'', PInt i)]"

text \<open>A record class that accepts every mapping and keeps it as it is.\<close>

definition raw_model :: "params \<Rightarrow> exn + params" where
  "raw_model kv = Inr kv"

text \<open>A service that answers every request with a rate limit failure.\<close>

definition net_rate_limit :: network where
  "net_rate_limit h = json_reply (failure_body ''Rate limit exceeded'')"

text \<open>
  A service that rejects every token as invalid; its sign-in hands out the token
  \<^verbatim>\<open>fresh\<close> when \<open>accept\<close> holds and fails with a wrong password otherwise.
\<close>

definition net_token_rejected :: "bool \<Rightarrow> network" where
  "net_token_rejected accept h =
     (if req_url (last h) = BASE_URL @ ''signIn''
      then (if accept
            then json_reply (success_body (PDict [(''token'', PStr ''fresh'')]))
            else json_reply (failure_body ''Wrong password''))
      else json_reply (failure_body ''Invalid token''))"

text \<open>
  A service whose sign-in hands out the token \<^verbatim>\<open>fresh\<close> and that answers a request
  carrying that token with one record and no paging metadata, any other request with
  an invalid token failure.
\<close>

definition net_expired :: network where
  "net_expired h =
     (if req_url (last h) = BASE_URL @ ''signIn''
      then json_reply (success_body (PDict [(''token'', PStr ''fresh'')]))
      else if map_of (req_params (last h)) ''token'' = Some (PStr ''fresh'')
      then json_reply (success_body (PList [item 1]))
      else json_reply (failure_body ''Invalid token''))"

text \<open>
  A service with five pages of one record each, where the connection breaks on every
  request for page 3.
\<close>

definition net_page3_down :: network where
  "net_page3_down h =
     (case map_of (req_params (last h)) ''page'' of
        Some (PInt p) \<Rightarrow>
          (if p = 3 then Raises_ClientError ''Connection reset''
           else json_reply (paged_body (PList [item p]) 5))
      | _ \<Rightarrow> json_reply (failure_body ''page expected''))"

text \<open>A dialog listing with pages of 3, 2 and 0 records.\<close>

definition net_dialogs :: network where
  "net_dialogs h =
     (case map_of (req_params (last h)) ''page'' of
        Some (PInt p) \<Rightarrow>
          (if p = 1 then json_reply (success_body (PList [item 1, item 2, item 3]))
           else if p = 2 then json_reply (success_body (PList [item 4, item 5]))
           else json_reply (success_body (PList [])))
      | _ \<Rightarrow> json_reply (failure_body ''page expected''))"

text \<open>
  A project search whose sign-in hands out the token \<^verbatim>\<open>fresh\<close> and whose every
  page holds two records and reports seven pages.
\<close>

definition net_projects :: network where
  "net_projects h =
     (if req_url (last h) = BASE_URL @ ''signIn''
      then json_reply (success_body (PDict [(''token'', PStr ''fresh'')]))
      else json_reply (paged_body (PList [item 1, item 2]) 7))"

text \<open>A service that answers every request, the sign-in included, with an invalid token.\<close>

definition net_auth_always :: network where
  "net_auth_always h = json_reply (failure_body ''Invalid token'')"

section \<open>Lemmas\<close>

declare request.simps [simp del] token.simps [simp del] get_token.simps [simp del]

subsection \<open>Strings\<close>

lemma contains_iff_sublist: "contains sub s \<longleftrightarrow> sublist sub s"
  by (induction s) (auto simp: sublist_Cons_right)

lemma sublist_map_iff:
  "sublist xs (map f ys) \<longleftrightarrow> (\<exists>w. sublist w ys \<and> map f w = xs)"
proof
  assume "sublist xs (map f ys)"
  then obtain ps ss where "map f ys = ps @ xs @ ss"
    by (auto simp: sublist_def)
  then have "\<exists>us vs. ys = us @ vs \<and> ps = map f us \<and> xs @ ss = map f vs"
    by (simp only: map_eq_append_conv)
  then obtain p vs where p: "ys = p @ vs" "xs @ ss = map f vs"
    by blast
  from p(2) have "\<exists>us ws. vs = us @ ws \<and> xs = map f us \<and> ss = map f ws"
    by (simp only: append_eq_map_conv)
  then obtain w s where "vs = w @ s" "xs = map f w"
    by blast
  with p have "ys = p @ w @ s" "map f w = xs"
    by simp_all
  then show "\<exists>w. sublist w ys \<and> map f w = xs"
    by (auto simp: sublist_def)
next
  assume "\<exists>w. sublist w ys \<and> map f w = xs"
  then obtain w ps ss where "ys = ps @ w @ ss" "map f w = xs"
    by (auto simp: sublist_def)
  then have "map f ys = map f ps @ xs @ map f ss"
    by simp
  then show "sublist xs (map f ys)"
    unfolding sublist_def by blast
qed

lemma contains_lower:
  "contains pat (lower msg) \<longleftrightarrow> (\<exists>w. sublist w msg \<and> lower w = pat)"
  by (simp add: contains_iff_sublist lower_def sublist_map_iff)

lemma classify_examples:
  "classify ''Token LIMIT reached'' = KworkRateLimitException"
  "classify ''Invalid Token'' = KworkAuthException"
  "classify ''AUTH required'' = KworkAuthException"
  "classify ''Wrong password'' = KworkApiException"
  "classify ''Invalid token'' = KworkAuthException"
  "classify ''Rate limit exceeded'' = KworkRateLimitException"
  "classify ''page expected'' = KworkApiException"
  by code_simp+

subsection \<open>One attempt\<close>

lemma attempt_state:
  "snd (attempt net meth api_method full_url timeout params s) =
     s\<lparr>sent := sent s @ [mk_request s meth (build_url api_method full_url) params timeout],
       logs := logs s @
         snd (try_body
               (net (sent s @ [mk_request s meth (build_url api_method full_url) params timeout]))
               (info meth api_method full_url params))\<rparr>"
  by (simp add: attempt_def Let_def)

lemma attempt_sent:
  "attempt net meth api_method full_url timeout params s = (r, s') \<Longrightarrow>
   sent s' = sent s @ [mk_request s meth (build_url api_method full_url) params timeout]"
  using attempt_state [of net meth api_method full_url timeout params s] by simp

lemma attempt_cached_token:
  "attempt net meth api_method full_url timeout params s = (r, s') \<Longrightarrow>
   cached_token s' = cached_token s"
  using attempt_state [of net meth api_method full_url timeout params s] by simp

subsection \<open>The paths through \<^verbatim>\<open>request\<close>\<close>

lemma request_no_endpoint:
  "\<not> truthy_str api_method \<Longrightarrow> \<not> truthy_str full_url \<Longrightarrow>
   request (Suc n) net meth api_method full_url timeout retried kwargs s =
     Some (Inl (Exn KworkApiException msg_need_endpoint PNone None None),
           s\<lparr>logs := logs s @ [Debug_Request meth api_method (sanitize (drop_none kwargs))]\<rparr>)"
  by (simp add: request.simps Let_def)

lemma request_returns:
  assumes "truthy_str api_method \<or> truthy_str full_url"
    and "attempt net meth api_method full_url timeout (drop_none kwargs)
           (s\<lparr>logs := logs s @ [Debug_Request meth api_method (sanitize (drop_none kwargs))]\<rparr>)
         = (Inr json_response, s3)"
  shows "request (Suc n) net meth api_method full_url timeout retried kwargs s =
           Some (Inr json_response, s3)"
  using assms by (simp add: request.simps Let_def)

lemma request_wraps:
  assumes "truthy_str api_method \<or> truthy_str full_url"
    and "attempt net meth api_method full_url timeout (drop_none kwargs)
           (s\<lparr>logs := logs s @ [Debug_Request meth api_method (sanitize (drop_none kwargs))]\<rparr>)
         = (Inl e, s3)"
    and "exn_class e \<noteq> KworkAuthException"
  shows "request (Suc n) net meth api_method full_url timeout retried kwargs s =
           Some (Inl (fst (wrap e (info meth api_method full_url (drop_none kwargs)))),
                 s3\<lparr>logs := logs s3 @
                      snd (wrap e (info meth api_method full_url (drop_none kwargs)))\<rparr>)"
  using assms by (simp add: request.simps Let_def)

lemma request_auth_retried:
  assumes "truthy_str api_method \<or> truthy_str full_url"
    and "attempt net meth api_method full_url timeout (drop_none kwargs)
           (s\<lparr>logs := logs s @ [Debug_Request meth api_method (sanitize (drop_none kwargs))]\<rparr>)
         = (Inl e, s3)"
    and "exn_class e = KworkAuthException"
  shows "request (Suc n) net meth api_method full_url timeout True kwargs s =
           Some (Inl e, s3\<lparr>logs := logs s3 @ [Error_Auth_Failed]\<rparr>)"
  using assms by (simp add: request.simps Let_def)

lemma request_auth_first:
  assumes "truthy_str api_method \<or> truthy_str full_url"
    and "attempt net meth api_method full_url timeout (drop_none kwargs)
           (s\<lparr>logs := logs s @ [Debug_Request meth api_method (sanitize (drop_none kwargs))]\<rparr>)
         = (Inl e, s3)"
    and "exn_class e = KworkAuthException"
  shows "request (Suc n) net meth api_method full_url timeout False kwargs s =
           (case token n net (s3\<lparr>logs := logs s3 @ [Warning_Auth_Retry], cached_token := PNone\<rparr>) of
              None \<Rightarrow> None
            | Some (Inl e', s4) \<Rightarrow> Some (Inl e', s4)
            | Some (Inr t, s4) \<Rightarrow>
                request n net meth api_method full_url timeout True
                  (AList.update ''token'' t (drop_none kwargs)) s4)"
  using assms by (simp add: request.simps Let_def)

subsection \<open>What a call leaves unchanged\<close>

lemma extends_refl: "extends s s"
  by (simp add: extends_def)

lemma extends_trans: "extends a b \<Longrightarrow> extends b c \<Longrightarrow> extends a c"
  by (auto simp: extends_def intro: prefix_order.order_trans)

lemma extends_logs: "extends a b \<Longrightarrow> extends a (b\<lparr>logs := logs b @ l\<rparr>)"
  by (auto simp: extends_def intro: prefix_order.order_trans)

lemma extends_cached_token: "extends a b \<Longrightarrow> extends a (b\<lparr>cached_token := t\<rparr>)"
  by (simp add: extends_def)

lemma extends_attempt:
  "attempt net meth api_method full_url timeout params s = (r, s') \<Longrightarrow> extends s s'"
  using attempt_state [of net meth api_method full_url timeout params s]
  by (auto simp: extends_def)

lemma token_unfold:
  "token n net s =
     (if cached_token s = PNone then
        (case get_token n net s of
           None \<Rightarrow> None
         | Some (Inl e, s1) \<Rightarrow> Some (Inl e, s1)
         | Some (Inr t, s1) \<Rightarrow> Some (Inr t, s1\<lparr>cached_token := t\<rparr>))
      else Some (Inr (cached_token s), s))"
  by (simp add: token.simps)

lemma get_token_state:
  "get_token n net s = Some (r, s') \<Longrightarrow>
   \<exists>r0. request n net ''post'' (Some ''signIn'') None 10 False (sign_in_params s) s = Some (r0, s')"
  by (auto simp: get_token.simps split: option.splits sum.splits pyval.splits if_splits)

lemma token_state:
  "token n net s = Some (r, s') \<Longrightarrow>
   (cached_token s \<noteq> PNone \<and> s' = s \<and> r = Inr (cached_token s)) \<or>
   (cached_token s = PNone \<and>
    (\<exists>r0 s1. get_token n net s = Some (r0, s1) \<and>
       (s' = s1 \<or> (\<exists>t. s' = s1\<lparr>cached_token := t\<rparr>))))"
  by (auto simp: token_unfold split: option.splits sum.splits if_splits)

lemma request_extends_step:
  assumes tok: "\<And>net s r s'. token n net s = Some (r, s') \<Longrightarrow> extends s s'"
    and req: "\<And>net meth api_method full_url timeout retried kwargs s r s'.
        request n net meth api_method full_url timeout retried kwargs s = Some (r, s')
        \<Longrightarrow> extends s s'"
    and run: "request (Suc n) net meth api_method full_url timeout retried kwargs s = Some (r, s')"
  shows "extends
           (s\<lparr>logs := logs s @ [Debug_Request meth api_method (sanitize (drop_none kwargs))]\<rparr>)
           s'"
    (is "extends ?s1 s'")
proof (cases "truthy_str api_method \<or> truthy_str full_url")
  case False
  with run show ?thesis
    by (auto simp: request_no_endpoint extends_def)
next
  case True
  obtain x s3 where att:
    "attempt net meth api_method full_url timeout (drop_none kwargs) ?s1 = (x, s3)"
    by (cases "attempt net meth api_method full_url timeout (drop_none kwargs) ?s1")
  then have s3: "extends ?s1 s3"
    by (rule extends_attempt)
  show ?thesis
  proof (cases x)
    case (Inr j)
    with run True att s3 show ?thesis
      by (simp add: request_returns)
  next
    case (Inl e)
    show ?thesis
    proof (cases "exn_class e = KworkAuthException")
      case False
      with run True att Inl s3 show ?thesis
        by (auto simp: request_wraps extends_logs)
    next
      case auth: True
      show ?thesis
      proof (cases retried)
        case True
        with run \<open>truthy_str api_method \<or> truthy_str full_url\<close> att Inl auth s3 show ?thesis
          by (auto simp: request_auth_retried extends_logs)
      next
        case False
        let ?s3 = "s3\<lparr>logs := logs s3 @ [Warning_Auth_Retry], cached_token := PNone\<rparr>"
        have s3': "extends ?s1 ?s3"
          using s3 by (simp add: extends_def)
        from run False \<open>truthy_str api_method \<or> truthy_str full_url\<close> att Inl auth
        have eq: "(case token n net ?s3 of
              None \<Rightarrow> None
            | Some (Inl e', s4) \<Rightarrow> Some (Inl e', s4)
            | Some (Inr t, s4) \<Rightarrow>
                request n net meth api_method full_url timeout True
                  (AList.update ''token'' t (drop_none kwargs)) s4) = Some (r, s')"
          by (simp add: request_auth_first)
        then obtain y s4 where t4: "token n net ?s3 = Some (y, s4)"
          by (auto split: option.splits)
        then have s4: "extends ?s1 s4"
          using tok s3' by (blast intro: extends_trans)
        show ?thesis
        proof (cases y)
          case (Inl e')
          with eq t4 s4 show ?thesis by simp
        next
          case (Inr t)
          with eq t4 have "request n net meth api_method full_url timeout True
                  (AList.update ''token'' t (drop_none kwargs)) s4 = Some (r, s')"
            by simp
          then have "extends s4 s'" by (rule req)
          with s4 show ?thesis by (rule extends_trans)
        qed
      qed
    qed
  qed
qed

lemma extends_logged:
  "extends (s\<lparr>logs := logs s @ l\<rparr>) s' \<Longrightarrow> extends s s'"
  by (auto simp: extends_def dest: append_prefixD)

lemma get_token_extends_step:
  assumes "\<And>net meth api_method full_url timeout retried kwargs s r s'.
        request n net meth api_method full_url timeout retried kwargs s = Some (r, s')
        \<Longrightarrow> extends s s'"
    and "get_token n net s = Some (r, s')"
  shows "extends s s'"
proof -
  from get_token_state [OF assms(2)] obtain r0 where
    "request n net ''post'' (Some ''signIn'') None 10 False (sign_in_params s) s = Some (r0, s')"
    by blast
  then show ?thesis by (rule assms(1))
qed

lemma token_extends_step:
  assumes "\<And>net s r s'. get_token n net s = Some (r, s') \<Longrightarrow> extends s s'"
    and "token n net s = Some (r, s')"
  shows "extends s s'"
  using token_state [OF assms(2)] assms(1)
  by (auto simp: extends_refl extends_cached_token)

lemma extends_all:
  "(\<forall>net meth api_method full_url timeout retried kwargs s r s'.
      request n net meth api_method full_url timeout retried kwargs s = Some (r, s')
      \<longrightarrow> extends s s')
   \<and> (\<forall>net s r s'. token n net s = Some (r, s') \<longrightarrow> extends s s')"
proof (induction n)
  case 0
  have "\<And>net s r s'. get_token 0 net s = Some (r, s') \<Longrightarrow> extends s s'"
    by (rule get_token_extends_step) (simp_all add: request.simps)
  then have "\<And>net s r s'. token 0 net s = Some (r, s') \<Longrightarrow> extends s s'"
    by (rule token_extends_step)
  then show ?case
    by (simp add: request.simps)
next
  case (Suc n)
  then have ih_req: "\<And>net meth api_method full_url timeout retried kwargs s r s'.
      request n net meth api_method full_url timeout retried kwargs s = Some (r, s')
      \<Longrightarrow> extends s s'"
    and ih_tok: "\<And>net s r s'. token n net s = Some (r, s') \<Longrightarrow> extends s s'"
    by blast+
  have req: "\<And>net meth api_method full_url timeout retried kwargs s r s'.
      request (Suc n) net meth api_method full_url timeout retried kwargs s = Some (r, s')
      \<Longrightarrow> extends s s'"
    by (rule extends_logged, rule request_extends_step [OF ih_tok ih_req])
  then have "\<And>net s r s'. get_token (Suc n) net s = Some (r, s') \<Longrightarrow> extends s s'"
    by (rule get_token_extends_step)
  then have "\<And>net s r s'. token (Suc n) net s = Some (r, s') \<Longrightarrow> extends s s'"
    by (rule token_extends_step)
  with req show ?case by blast
qed

lemma request_extends:
  "request n net meth api_method full_url timeout retried kwargs s = Some (r, s')
   \<Longrightarrow> extends s s'"
  using extends_all by blast

lemma token_extends: "token n net s = Some (r, s') \<Longrightarrow> extends s s'"
  using extends_all by blast

lemma request_logs_first:
  assumes "request n net meth api_method full_url timeout retried kwargs s = Some (r, s')"
  shows "prefix (logs s @ [Debug_Request meth api_method (sanitize (drop_none kwargs))]) (logs s')"
proof (cases n)
  case 0
  with assms show ?thesis by (simp add: request.simps)
next
  case (Suc m)
  with assms have "extends
      (s\<lparr>logs := logs s @ [Debug_Request meth api_method (sanitize (drop_none kwargs))]\<rparr>) s'"
    by (blast intro: request_extends_step token_extends request_extends)
  then show ?thesis by (simp add: extends_def)
qed

subsection \<open>The token a refresh yields\<close>

lemma get_token_truthy: "get_token n net s = Some (Inr t, s') \<Longrightarrow> truthy t"
  by (auto simp: get_token.simps split: option.splits sum.splits pyval.splits if_splits)

lemma get_token_not_None: "get_token n net s = Some (Inr t, s') \<Longrightarrow> t \<noteq> PNone"
  using get_token_truthy by fastforce

lemma token_cached:
  "token n net s = Some (Inr t, s') \<Longrightarrow> t \<noteq> PNone \<and> cached_token s' = t"
  by (auto simp: token_unfold split: option.splits sum.splits if_splits
      dest: get_token_not_None)

lemma token_needs_fuel: "cached_token s = PNone \<Longrightarrow> token 0 net s = None"
  by (simp add: token_unfold get_token.simps request.simps)

lemma drop_none_idem: "drop_none (drop_none ps) = drop_none ps"
  by (simp add: drop_none_def)

lemma drop_none_update:
  "t \<noteq> PNone \<Longrightarrow> drop_none (AList.update k t (drop_none ps)) = AList.update k t (drop_none ps)"
  unfolding drop_none_def by (induction ps) auto

subsection \<open>Redaction\<close>

lemma distinct_drop_none: "distinct (map fst ps) \<Longrightarrow> distinct (map fst (drop_none ps))"
  by (simp add: drop_none_def distinct_map_filter)

lemma distinct_sanitize: "distinct (map fst ps) \<Longrightarrow> distinct (map fst (sanitize ps))"
  by (simp add: sanitize_def Let_def distinct_update)

lemma keys_update_present:
  "map_of ps k \<noteq> None \<Longrightarrow> map fst (AList.update k v ps) = map fst ps"
  by (induction ps) auto

lemma keys_sanitize: "map fst (sanitize ps) = map fst ps"
  by (simp add: sanitize_def Let_def keys_update_present update_conv')

lemma map_of_sanitize:
  "map_of (sanitize ps) k =
     (if sensitive k \<and> map_of ps k \<noteq> None then Some redaction_marker else map_of ps k)"
  by (auto simp: sanitize_def Let_def update_conv' sensitive_def)

lemma redacted_sanitize:
  assumes "distinct (map fst ps)"
  shows "redacted (sanitize ps)"
proof -
  have "snd kv = redaction_marker" if "kv \<in> set (sanitize ps)" "sensitive (fst kv)" for kv
  proof -
    from assms have "distinct (map fst (sanitize ps))"
      by (rule distinct_sanitize)
    with that(1) have "map_of (sanitize ps) (fst kv) = Some (snd kv)"
      by (simp add: map_of_eq_Some_iff)
    with that(2) show ?thesis
      by (simp add: map_of_sanitize split: if_splits)
  qed
  then show ?thesis
    by (auto simp: redacted_def list_all_iff)
qed

lemma redacts_refl: "redacts s s"
  by (simp add: redacts_def)

lemma redacts_trans:
  assumes "redacts a b" and "redacts b c"
  shows "redacts a c"
proof -
  from assms obtain x y where x: "logs b = logs a @ x" and y: "logs c = logs b @ y"
    by (auto simp: redacts_def prefix_def)
  with assms show ?thesis
    by (simp add: redacts_def)
qed

lemma redacts_logs:
  "list_all log_redacted l \<Longrightarrow> redacts s (s\<lparr>logs := logs s @ l\<rparr>)"
  by (simp add: redacts_def)

lemma redacts_cached_token: "redacts a b \<Longrightarrow> redacts a (b\<lparr>cached_token := t\<rparr>)"
  by (simp add: redacts_def)

lemma redacts_then_logs:
  "redacts a b \<Longrightarrow> list_all log_redacted l \<Longrightarrow> redacts a (b\<lparr>logs := logs b @ l\<rparr>)"
  by (blast intro: redacts_trans redacts_logs)

lemma try_body_redacted:
  assumes "redacted (ri_params ri)"
  shows "list_all log_redacted (snd (try_body out ri))
     \<and> (\<forall>e. fst (try_body out ri) = Inl e \<longrightarrow> exn_redacted e)"
  using assms
  by (auto simp: try_body_def check_response_def raise_failure_def attribute_error_def
      split: transport_outcome.splits sum.splits pyval.splits)

lemma attempt_redacts:
  assumes "distinct (map fst params)"
    and "attempt net meth api_method full_url timeout params s = (x, s3)"
  shows "redacts s s3 \<and> (\<forall>e. x = Inl e \<longrightarrow> exn_redacted e)"
proof -
  let ?out = "net (sent s @ [mk_request s meth (build_url api_method full_url) params timeout])"
  have "redacted (ri_params (info meth api_method full_url params))"
    using assms(1) by (simp add: info_def redacted_sanitize)
  then have tb: "list_all log_redacted (snd (try_body ?out (info meth api_method full_url params)))
     \<and> (\<forall>e. fst (try_body ?out (info meth api_method full_url params)) = Inl e \<longrightarrow> exn_redacted e)"
    by (rule try_body_redacted)
  from assms(2) have x: "x = fst (try_body ?out (info meth api_method full_url params))"
    and s3: "s3 = s\<lparr>sent := sent s @ [mk_request s meth (build_url api_method full_url) params timeout],
       logs := logs s @ snd (try_body ?out (info meth api_method full_url params))\<rparr>"
    by (auto simp: attempt_def Let_def)
  from tb show ?thesis
    unfolding x s3 by (simp add: redacts_def)
qed

lemma wrap_redacted:
  "redacted (ri_params ri) \<Longrightarrow> exn_redacted e \<Longrightarrow>
   exn_redacted (fst (wrap e ri)) \<and> list_all log_redacted (snd (wrap e ri))"
  by (cases e) (simp add: wrap_def)

lemma distinct_sign_in_params: "distinct (map fst (sign_in_params s))"
  by (simp add: sign_in_params_def)

lemma request_redacts_step:
  assumes tok: "\<And>net s r s'. token n net s = Some (r, s') \<Longrightarrow>
        redacts s s' \<and> (\<forall>e. r = Inl e \<longrightarrow> exn_redacted e)"
    and req: "\<And>net meth api_method full_url timeout retried kwargs s r s'.
        distinct (map fst kwargs) \<Longrightarrow>
        request n net meth api_method full_url timeout retried kwargs s = Some (r, s')
        \<Longrightarrow> redacts s s' \<and> (\<forall>e. r = Inl e \<longrightarrow> exn_redacted e)"
    and keys: "distinct (map fst kwargs)"
    and run: "request (Suc n) net meth api_method full_url timeout retried kwargs s = Some (r, s')"
  shows "redacts s s' \<and> (\<forall>e. r = Inl e \<longrightarrow> exn_redacted e)"
proof -
  let ?s1 = "s\<lparr>logs := logs s @ [Debug_Request meth api_method (sanitize (drop_none kwargs))]\<rparr>"
  from keys have dk: "distinct (map fst (drop_none kwargs))"
    by (rule distinct_drop_none)
  then have red: "redacted (sanitize (drop_none kwargs))"
    by (rule redacted_sanitize)
  then have s1: "redacts s ?s1"
    by (simp add: redacts_logs)
  show ?thesis
  proof (cases "truthy_str api_method \<or> truthy_str full_url")
    case False
    with run s1 show ?thesis
      by (auto simp: request_no_endpoint)
  next
    case True
    obtain x s3 where att:
      "attempt net meth api_method full_url timeout (drop_none kwargs) ?s1 = (x, s3)"
      by (cases "attempt net meth api_method full_url timeout (drop_none kwargs) ?s1")
    with dk have a3: "redacts ?s1 s3 \<and> (\<forall>e. x = Inl e \<longrightarrow> exn_redacted e)"
      by (rule attempt_redacts)
    with s1 have s3: "redacts s s3"
      by (blast intro: redacts_trans)
    show ?thesis
    proof (cases x)
      case (Inr j)
      with run True att s3 show ?thesis
        by (auto simp: request_returns)
    next
      case (Inl e)
      with a3 have e: "exn_redacted e" by simp
      show ?thesis
      proof (cases "exn_class e = KworkAuthException")
        case False
        from red have "redacted (ri_params (info meth api_method full_url (drop_none kwargs)))"
          by (simp add: info_def)
        then have "exn_redacted (fst (wrap e (info meth api_method full_url (drop_none kwargs))))
          \<and> list_all log_redacted (snd (wrap e (info meth api_method full_url (drop_none kwargs))))"
          using e by (rule wrap_redacted)
        with run True att Inl False s3 show ?thesis
          by (auto simp: request_wraps redacts_then_logs)
      next
        case auth: True
        show ?thesis
        proof (cases retried)
          case True
          with run \<open>truthy_str api_method \<or> truthy_str full_url\<close> att Inl auth s3 e show ?thesis
            by (auto simp: request_auth_retried redacts_then_logs)
        next
          case False
          let ?s3 = "s3\<lparr>logs := logs s3 @ [Warning_Auth_Retry], cached_token := PNone\<rparr>"
          have s3': "redacts s ?s3"
            using s3 redacts_then_logs [of s s3 "[Warning_Auth_Retry]"]
            by (simp add: redacts_def)
          from run False \<open>truthy_str api_method \<or> truthy_str full_url\<close> att Inl auth
          have eq: "(case token n net ?s3 of
                None \<Rightarrow> None
              | Some (Inl e', s4) \<Rightarrow> Some (Inl e', s4)
              | Some (Inr t, s4) \<Rightarrow>
                  request n net meth api_method full_url timeout True
                    (AList.update ''token'' t (drop_none kwargs)) s4) = Some (r, s')"
            by (simp add: request_auth_first)
          then obtain y s4 where t4: "token n net ?s3 = Some (y, s4)"
            by (auto split: option.splits)
          then have t4': "redacts ?s3 s4 \<and> (\<forall>e. y = Inl e \<longrightarrow> exn_redacted e)"
            by (rule tok)
          with s3' have s4: "redacts s s4"
            by (blast intro: redacts_trans)
          show ?thesis
          proof (cases y)
            case (Inl e')
            with eq t4 s4 t4' show ?thesis by auto
          next
            case (Inr t)
            with eq t4 have "request n net meth api_method full_url timeout True
                    (AList.update ''token'' t (drop_none kwargs)) s4 = Some (r, s')"
              by simp
            moreover from dk have "distinct (map fst (AList.update ''token'' t (drop_none kwargs)))"
              by (simp add: distinct_update)
            ultimately have "redacts s4 s' \<and> (\<forall>e. r = Inl e \<longrightarrow> exn_redacted e)"
              using req by blast
            with s4 show ?thesis by (blast intro: redacts_trans)
          qed
        qed
      qed
    qed
  qed
qed

lemma get_token_redacts_step:
  assumes req: "\<And>net meth api_method full_url timeout retried kwargs s r s'.
        distinct (map fst kwargs) \<Longrightarrow>
        request n net meth api_method full_url timeout retried kwargs s = Some (r, s')
        \<Longrightarrow> redacts s s' \<and> (\<forall>e. r = Inl e \<longrightarrow> exn_redacted e)"
    and run: "get_token n net s = Some (r, s')"
  shows "redacts s s' \<and> (\<forall>e. r = Inl e \<longrightarrow> exn_redacted e)"
proof -
  from get_token_state [OF run] obtain r0 where r0:
    "request n net ''post'' (Some ''signIn'') None 10 False (sign_in_params s) s = Some (r0, s')"
    by blast
  with distinct_sign_in_params have q: "redacts s s' \<and> (\<forall>e. r0 = Inl e \<longrightarrow> exn_redacted e)"
    by (rule req)
  from run r0 have "\<forall>e. r = Inl e \<longrightarrow> e = projl r0 \<and> r0 = Inl e \<or> request_info e = None \<and> cause e = None"
    by (auto simp: get_token.simps attribute_error_def split: sum.splits pyval.splits if_splits)
  moreover have "exn_redacted e" if "request_info e = None" "cause e = None" for e
    using that by (cases e) simp
  ultimately show ?thesis
    using q by blast
qed

lemma token_redacts_step:
  assumes "\<And>net s r s'. get_token n net s = Some (r, s') \<Longrightarrow>
        redacts s s' \<and> (\<forall>e. r = Inl e \<longrightarrow> exn_redacted e)"
    and run: "token n net s = Some (r, s')"
  shows "redacts s s' \<and> (\<forall>e. r = Inl e \<longrightarrow> exn_redacted e)"
proof (cases "cached_token s = PNone")
  case False
  with run show ?thesis
    by (auto simp: token_unfold redacts_refl)
next
  case True
  with run obtain r0 s1 where g: "get_token n net s = Some (r0, s1)"
    by (auto simp: token_unfold split: option.splits)
  then have q: "redacts s s1 \<and> (\<forall>e. r0 = Inl e \<longrightarrow> exn_redacted e)"
    by (rule assms(1))
  from run True g show ?thesis
    using q by (cases r0) (auto simp: token_unfold redacts_cached_token)
qed

lemma redacts_all:
  "(\<forall>net meth api_method full_url timeout retried kwargs s r s'.
      distinct (map fst kwargs) \<longrightarrow>
      request n net meth api_method full_url timeout retried kwargs s = Some (r, s')
      \<longrightarrow> redacts s s' \<and> (\<forall>e. r = Inl e \<longrightarrow> exn_redacted e))
   \<and> (\<forall>net s r s'. token n net s = Some (r, s')
      \<longrightarrow> redacts s s' \<and> (\<forall>e. r = Inl e \<longrightarrow> exn_redacted e))"
proof (induction n)
  case 0
  have "\<And>net s r s'. get_token 0 net s = Some (r, s') \<Longrightarrow>
      redacts s s' \<and> (\<forall>e. r = Inl e \<longrightarrow> exn_redacted e)"
    by (rule get_token_redacts_step) (simp_all add: request.simps)
  then have "\<And>net s r s'. token 0 net s = Some (r, s') \<Longrightarrow>
      redacts s s' \<and> (\<forall>e. r = Inl e \<longrightarrow> exn_redacted e)"
    by (rule token_redacts_step)
  then show ?case
    by (simp add: request.simps)
next
  case (Suc n)
  then have ih_req: "\<And>net meth api_method full_url timeout retried kwargs s r s'.
      distinct (map fst kwargs) \<Longrightarrow>
      request n net meth api_method full_url timeout retried kwargs s = Some (r, s')
      \<Longrightarrow> redacts s s' \<and> (\<forall>e. r = Inl e \<longrightarrow> exn_redacted e)"
    and ih_tok: "\<And>net s r s'. token n net s = Some (r, s') \<Longrightarrow>
      redacts s s' \<and> (\<forall>e. r = Inl e \<longrightarrow> exn_redacted e)"
    by blast+
  have req: "\<And>net meth api_method full_url timeout retried kwargs s r s'.
      distinct (map fst kwargs) \<Longrightarrow>
      request (Suc n) net meth api_method full_url timeout retried kwargs s = Some (r, s')
      \<Longrightarrow> redacts s s' \<and> (\<forall>e. r = Inl e \<longrightarrow> exn_redacted e)"
    by (rule request_redacts_step [OF ih_tok ih_req])
  then have "\<And>net s r s'. get_token (Suc n) net s = Some (r, s') \<Longrightarrow>
      redacts s s' \<and> (\<forall>e. r = Inl e \<longrightarrow> exn_redacted e)"
    by (rule get_token_redacts_step)
  then have "\<And>net s r s'. token (Suc n) net s = Some (r, s') \<Longrightarrow>
      redacts s s' \<and> (\<forall>e. r = Inl e \<longrightarrow> exn_redacted e)"
    by (rule token_redacts_step)
  with req show ?case by blast
qed

lemma request_redacts:
  "distinct (map fst kwargs) \<Longrightarrow>
   request n net meth api_method full_url timeout retried kwargs s = Some (r, s') \<Longrightarrow>
   redacts s s' \<and> (\<forall>e. r = Inl e \<longrightarrow> exn_redacted e)"
  using redacts_all by blast

subsection \<open>Calls that take a single attempt\<close>

lemma request_needs_endpoint:
  assumes "request n net meth api_method full_url timeout retried kwargs s = Some (Inr v, s')"
  shows "truthy_str api_method \<or> truthy_str full_url"
proof (rule ccontr)
  assume "\<not> (truthy_str api_method \<or> truthy_str full_url)"
  with assms show False
    by (cases n) (simp_all add: request.simps request_no_endpoint)
qed

lemma request_sends_once:
  assumes run: "request n net meth api_method full_url timeout retried kwargs s = Some (r, s')"
    and endpoint: "truthy_str api_method \<or> truthy_str full_url"
    and direct: "\<forall>e. fst (attempt net meth api_method full_url timeout (drop_none kwargs)
             (s\<lparr>logs := logs s @
                [Debug_Request meth api_method (sanitize (drop_none kwargs))]\<rparr>)) = Inl e
           \<longrightarrow> exn_class e \<noteq> KworkAuthException"
  shows "sent s' = sent s @
           [mk_request s meth (build_url api_method full_url) (drop_none kwargs) timeout]"
proof -
  let ?s1 = "s\<lparr>logs := logs s @ [Debug_Request meth api_method (sanitize (drop_none kwargs))]\<rparr>"
  from run obtain m where n: "n = Suc m"
    by (cases n) (simp_all add: request.simps)
  obtain x s3 where att:
    "attempt net meth api_method full_url timeout (drop_none kwargs) ?s1 = (x, s3)"
    by (cases "attempt net meth api_method full_url timeout (drop_none kwargs) ?s1")
  then have s3: "sent s3 = sent s @
           [mk_request s meth (build_url api_method full_url) (drop_none kwargs) timeout]"
    by (simp add: attempt_sent mk_request_def)
  show ?thesis
  proof (cases x)
    case (Inr j)
    with run n endpoint att s3 show ?thesis
      by (auto simp: request_returns)
  next
    case (Inl e)
    with direct att have "exn_class e \<noteq> KworkAuthException"
      by simp
    with run n endpoint att Inl s3 show ?thesis
      by (auto simp: request_wraps)
  qed
qed

subsection \<open>Record construction\<close>

lemma construct_all_map:
  "\<forall>x\<in>set xs. construct model x = Inr (dec x) \<Longrightarrow> construct_all model xs = Inr (map dec xs)"
  by (induction xs) simp_all

lemma records_list: "records model (PList xs) = construct_all model xs"
  by (simp add: records_def iter_def)

lemma some_pair: "map_option fst R = Some x \<Longrightarrow> R = Some (x, snd (the R))"
  by (cases R) (auto simp: prod_eq_iff)

subsection \<open>The loop over the dialog pages\<close>

lemma dialogs_loop_run:
  fixes st :: "nat \<Rightarrow> client" and resp :: "nat \<Rightarrow> pyval" and recs :: "nat \<Rightarrow> 'r list"
  assumes fetch: "\<forall>k\<le>n. \<exists>d.
        request fuel net ''post'' (Some ''dialogs'') None 10 False
          (dialogs_params tok (int k + 1)) (st k) = Some (Inr (PDict d), st (Suc k))
        \<and> map_of d ''response'' = Some (resp k)"
    and full: "\<forall>k<n. truthy (resp k) \<and> records model (resp k) = Inr (recs k)"
    and empty: "\<not> truthy (resp n)"
  shows "j \<le> n \<Longrightarrow> n - j < iters \<Longrightarrow>
         dialogs_loop iters fuel net model tok (int j + 1) acc (st j) =
           Some (Inr (acc @ concat (map recs [j..<n])), st (Suc n))"
proof (induction iters arbitrary: j acc)
  case 0
  then show ?case by simp
next
  case (Suc iters)
  from fetch Suc.prems(1) obtain d where
    req: "request fuel net ''post'' (Some ''dialogs'') None 10 False
          (dialogs_params tok (int j + 1)) (st j) = Some (Inr (PDict d), st (Suc j))"
    and d: "map_of d ''response'' = Some (resp j)"
    by blast
  from d have sub: "subscript (PDict d) ''response'' = Inr (resp j)"
    by (simp add: subscript_def)
  show ?case
  proof (cases "j = n")
    case True
    with req sub empty show ?thesis
      by simp
  next
    case False
    with Suc.prems have lt: "j < n" and le: "Suc j \<le> n" and it: "n - Suc j < iters"
      by simp_all
    from full lt have t: "truthy (resp j)" and r: "records model (resp j) = Inr (recs j)"
      by simp_all
    have "dialogs_loop iters fuel net model tok (int (Suc j) + 1) (acc @ recs j) (st (Suc j)) =
           Some (Inr ((acc @ recs j) @ concat (map recs [Suc j..<n])), st (Suc n))"
      using le it by (rule Suc.IH)
    moreover have "int (Suc j) + 1 = int j + 1 + 1"
      by simp
    moreover from lt have "[j..<n] = j # [Suc j..<n]"
      by (rule upt_conv_Cons)
    ultimately show ?thesis
      using req sub t r by simp
  qed
qed

lemma upto_2_5: "[2..5::int] = [2, 3, 4, 5]"
  by code_simp

subsection \<open>Fuel\<close>

text \<open>
  More fuel never changes what a call returns, and no fuel is enough when the service
  answers every request, the sign-in included, with an authentication failure: the
  refresh of the token then signs in again and again.
\<close>

lemma attempt_auth_always:
  "fst (attempt net_auth_always meth api_method full_url timeout params s) =
     Inl (Exn KworkAuthException ''Invalid token'' PNone
            (Some (info meth api_method full_url params)) None)"
  by (simp add: attempt_def Let_def try_body_def net_auth_always_def json_reply_def
      failure_body_def check_response_def dict_get_def raise_failure_def dict_get_default_def
      classify_examples)

lemma sign_in_never_returns:
  "truthy_str api_method \<or> truthy_str full_url \<Longrightarrow>
   request n net_auth_always meth api_method full_url timeout False kwargs s = None"
proof (induction n arbitrary: meth api_method full_url timeout kwargs s)
  case 0
  show ?case by (simp add: request.simps)
next
  case (Suc n)
  let ?s1 = "s\<lparr>logs := logs s @ [Debug_Request meth api_method (sanitize (drop_none kwargs))]\<rparr>"
  let ?e = "Exn KworkAuthException ''Invalid token'' PNone
              (Some (info meth api_method full_url (drop_none kwargs))) None"
  obtain s3 where att: "attempt net_auth_always meth api_method full_url timeout
      (drop_none kwargs) ?s1 = (Inl ?e, s3)"
    using attempt_auth_always [of meth api_method full_url timeout "drop_none kwargs" ?s1]
    by (cases "attempt net_auth_always meth api_method full_url timeout (drop_none kwargs) ?s1")
      simp
  have "get_token n net_auth_always s' = None" for s'
    by (simp add: get_token.simps Suc.IH)
  then have "token n net_auth_always
      (s3\<lparr>logs := logs s3 @ [Warning_Auth_Retry], cached_token := PNone\<rparr>) = None"
    by (simp add: token_unfold)
  with request_auth_first [OF Suc.prems att] show ?case
    by simp
qed

lemma fuel_mono_step:
  assumes tok: "\<And>net s r. token n net s = Some r \<Longrightarrow> token (Suc n) net s = Some r"
    and req: "\<And>net meth api_method full_url timeout retried kwargs s r.
        request n net meth api_method full_url timeout retried kwargs s = Some r
        \<Longrightarrow> request (Suc n) net meth api_method full_url timeout retried kwargs s = Some r"
    and run: "request (Suc n) net meth api_method full_url timeout retried kwargs s = Some r"
  shows "request (Suc (Suc n)) net meth api_method full_url timeout retried kwargs s = Some r"
proof (cases "truthy_str api_method \<or> truthy_str full_url")
  case False
  with run show ?thesis
    by (simp add: request_no_endpoint)
next
  case True
  let ?s1 = "s\<lparr>logs := logs s @ [Debug_Request meth api_method (sanitize (drop_none kwargs))]\<rparr>"
  obtain x s3 where att:
    "attempt net meth api_method full_url timeout (drop_none kwargs) ?s1 = (x, s3)"
    by (cases "attempt net meth api_method full_url timeout (drop_none kwargs) ?s1")
  show ?thesis
  proof (cases x)
    case (Inr j)
    with att have att': "attempt net meth api_method full_url timeout (drop_none kwargs) ?s1 =
        (Inr j, s3)"
      by simp
    from run request_returns [OF True att', where n = n and retried = retried]
    have "r = (Inr j, s3)" by simp
    with request_returns [OF True att', where n = "Suc n" and retried = retried]
    show ?thesis by simp
  next
    case (Inl e)
    with att have att': "attempt net meth api_method full_url timeout (drop_none kwargs) ?s1 =
        (Inl e, s3)"
      by simp
    show ?thesis
    proof (cases "exn_class e = KworkAuthException")
      case False
      from run request_wraps [OF True att' False, where n = n and retried = retried]
      have "r = (Inl (fst (wrap e (info meth api_method full_url (drop_none kwargs)))),
                 s3\<lparr>logs := logs s3 @
                      snd (wrap e (info meth api_method full_url (drop_none kwargs)))\<rparr>)"
        by simp
      with request_wraps [OF True att' False, where n = "Suc n" and retried = retried]
      show ?thesis by simp
    next
      case auth: True
      show ?thesis
      proof (cases retried)
        case True
        from run request_auth_retried
          [OF \<open>truthy_str api_method \<or> truthy_str full_url\<close> att' auth, where n = n] True
        have "r = (Inl e, s3\<lparr>logs := logs s3 @ [Error_Auth_Failed]\<rparr>)"
          by simp
        with request_auth_retried
          [OF \<open>truthy_str api_method \<or> truthy_str full_url\<close> att' auth, where n = "Suc n"] True
        show ?thesis by simp
      next
        case False
        let ?s3 = "s3\<lparr>logs := logs s3 @ [Warning_Auth_Retry], cached_token := PNone\<rparr>"
        from run False
          request_auth_first
            [OF \<open>truthy_str api_method \<or> truthy_str full_url\<close> att' auth, where n = n]
        have eq: "(case token n net ?s3 of
              None \<Rightarrow> None
            | Some (Inl e', s4) \<Rightarrow> Some (Inl e', s4)
            | Some (Inr t, s4) \<Rightarrow>
                request n net meth api_method full_url timeout True
                  (AList.update ''token'' t (drop_none kwargs)) s4) = Some r"
          by simp
        then obtain y s4 where t4: "token n net ?s3 = Some (y, s4)"
          by (auto split: option.splits)
        then have t4': "token (Suc n) net ?s3 = Some (y, s4)"
          by (rule tok)
        have "(case token (Suc n) net ?s3 of
              None \<Rightarrow> None
            | Some (Inl e', s4) \<Rightarrow> Some (Inl e', s4)
            | Some (Inr t, s4) \<Rightarrow>
                request (Suc n) net meth api_method full_url timeout True
                  (AList.update ''token'' t (drop_none kwargs)) s4) = Some r"
        proof (cases y)
          case (Inl e')
          with eq t4 have "r = (Inl e', s4)" by simp
          with t4' Inl show ?thesis by simp
        next
          case (Inr t)
          with eq t4 have "request n net meth api_method full_url timeout True
                  (AList.update ''token'' t (drop_none kwargs)) s4 = Some r"
            by simp
          then have "request (Suc n) net meth api_method full_url timeout True
                  (AList.update ''token'' t (drop_none kwargs)) s4 = Some r"
            by (rule req)
          with t4' Inr show ?thesis by simp
        qed
        with False
          request_auth_first
            [OF \<open>truthy_str api_method \<or> truthy_str full_url\<close> att' auth, where n = "Suc n"]
        show ?thesis by simp
      qed
    qed
  qed
qed

lemma fuel_mono_all:
  "(\<forall>net meth api_method full_url timeout retried kwargs s r.
      request n net meth api_method full_url timeout retried kwargs s = Some r
      \<longrightarrow> request (Suc n) net meth api_method full_url timeout retried kwargs s = Some r)
   \<and> (\<forall>net s r. token n net s = Some r \<longrightarrow> token (Suc n) net s = Some r)"
proof (induction n)
  case 0
  show ?case
    by (auto simp: request.simps token_unfold get_token.simps split: if_splits)
next
  case (Suc n)
  then have ih_req: "\<And>net meth api_method full_url timeout retried kwargs s r.
      request n net meth api_method full_url timeout retried kwargs s = Some r
      \<Longrightarrow> request (Suc n) net meth api_method full_url timeout retried kwargs s = Some r"
    and ih_tok: "\<And>net s r. token n net s = Some r \<Longrightarrow> token (Suc n) net s = Some r"
    by blast+
  have req: "\<And>net meth api_method full_url timeout retried kwargs s r.
      request (Suc n) net meth api_method full_url timeout retried kwargs s = Some r
      \<Longrightarrow> request (Suc (Suc n)) net meth api_method full_url timeout retried kwargs s = Some r"
    by (rule fuel_mono_step [OF ih_tok ih_req])
  have "token (Suc (Suc n)) net s = Some r" if "token (Suc n) net s = Some r" for net s r
    using that
    by (auto simp: token_unfold get_token.simps split: if_splits option.splits sum.splits
        prod.splits pyval.splits dest!: req)
  with req show ?case by blast
qed

lemma request_fuel_mono:
  "request n net meth api_method full_url timeout retried kwargs s = Some r \<Longrightarrow>
   request (n + k) net meth api_method full_url timeout retried kwargs s = Some r"
proof (induction k)
  case 0
  then show ?case by simp
next
  case (Suc k)
  then have "request (n + k) net meth api_method full_url timeout retried kwargs s = Some r"
    by simp
  with fuel_mono_all [of "n + k"]
  have "request (Suc (n + k)) net meth api_method full_url timeout retried kwargs s = Some r"
    by blast
  then show ?case by simp
qed

lemma token_fuel_mono: "token n net s = Some r \<Longrightarrow> token (n + k) net s = Some r"
proof (induction k)
  case 0
  then show ?case by simp
next
  case (Suc k)
  then have "token (n + k) net s = Some r"
    by simp
  with fuel_mono_all [of "n + k"] have "token (Suc (n + k)) net s = Some r"
    by blast
  then show ?case by simp
qed

subsection \<open>A rate limit failure\<close>

text \<open>
  Whatever the request, a response with a falsy success flag and a message that holds
  \<^verbatim>\<open>limit\<close> reaches the caller as a \<^verbatim>\<open>KworkException\<close> raised from the
  \<^verbatim>\<open>KworkRateLimitException\<close> of line 100, after exactly one request.
\<close>

lemma rate_limit_always_wrapped:
  assumes endpoint: "truthy_str api_method \<or> truthy_str full_url"
    and reply: "net (sent s @
                  [mk_request s meth (build_url api_method full_url) (drop_none kwargs) timeout])
                = Response status ''application/json'' txt (Inr (PDict d))"
    and failed: "\<not> truthy (dict_get d ''success'')"
    and msg: "map_of d ''error'' = Some (PStr m)"
    and limit: "contains ''limit'' (lower m)"
  shows "\<exists>s'. request (Suc n) net meth api_method full_url timeout retried kwargs s =
           Some (Inl (Exn KworkException (msg_unknown @ m) PNone
                        (Some (info meth api_method full_url (drop_none kwargs)))
                        (Some (Exn KworkRateLimitException m (dict_get d ''error_code'')
                                 (Some (info meth api_method full_url (drop_none kwargs)))
                                 None))), s')
         \<and> sent s' = sent s @
             [mk_request s meth (build_url api_method full_url) (drop_none kwargs) timeout]"
proof -
  let ?s1 = "s\<lparr>logs := logs s @ [Debug_Request meth api_method (sanitize (drop_none kwargs))]\<rparr>"
  let ?ri = "info meth api_method full_url (drop_none kwargs)"
  let ?e = "Exn KworkRateLimitException m (dict_get d ''error_code'') (Some ?ri) None"
  from limit have c: "classify m = KworkRateLimitException"
    by (simp add: classify_def)
  obtain s3 where att: "attempt net meth api_method full_url timeout (drop_none kwargs) ?s1 =
      (Inl ?e, s3)"
    using reply failed msg c
    by (simp add: attempt_def Let_def mk_request_def try_body_def check_response_def
        raise_failure_def dict_get_default_def)
  then have s3: "sent s3 = sent s @
      [mk_request s meth (build_url api_method full_url) (drop_none kwargs) timeout]"
    by (simp add: attempt_sent mk_request_def)
  have "exn_class ?e \<noteq> KworkAuthException"
    by simp
  with endpoint att
  have "request (Suc n) net meth api_method full_url timeout retried kwargs s =
      Some (Inl (fst (wrap ?e ?ri)), s3\<lparr>logs := logs s3 @ snd (wrap ?e ?ri)\<rparr>)"
    by (rule request_wraps)
  with s3 show ?thesis
    by (simp add: wrap_def)
qed

section \<open>The failure classification\<close>

text \<open>
  C5: the class of the exception raised for a failure message is a function of the
  message alone. A message with a block of characters that reads \<^verbatim>\<open>limit\<close> once
  lowered gives the rate limit class; otherwise one with a block that reads
  \<^verbatim>\<open>auth\<close> or \<^verbatim>\<open>token\<close> gives the authentication class; every other message gives
  the generic class. The test for \<^verbatim>\<open>limit\<close> comes first. Lines 95 to 105 raise an
  exception of exactly that class for the message found under \<^verbatim>\<open>error\<close>.
\<close>

theorem classification:
  "classify msg =
     (if \<exists>w. sublist w msg \<and> lower w = ''limit'' then KworkRateLimitException
      else if \<exists>w. sublist w msg \<and> (lower w = ''auth'' \<or> lower w = ''token'')
      then KworkAuthException
      else KworkApiException)
   \<and> (\<forall>d ri. map_of d ''error'' = Some (PStr msg) \<longrightarrow>
         raise_failure d ri =
           Exn (classify msg) msg (dict_get d ''error_code'') (Some ri) None)"
  by (auto simp: classify_def contains_lower raise_failure_def dict_get_default_def)

theorem classification_witness:
  "classify ''Token LIMIT reached'' = KworkRateLimitException
   \<and> classify ''Invalid Token'' = KworkAuthException
   \<and> classify ''Wrong password'' = KworkApiException
   \<and> map_of [(''success'', PBool False), (''error'', PStr ''Token LIMIT reached'')] ''error''
       = Some (PStr ''Token LIMIT reached'')
   \<and> raise_failure [(''success'', PBool False), (''error'', PStr ''Token LIMIT reached'')]
        (info ''post'' (Some ''actor'') None [])
      = Exn KworkRateLimitException ''Token LIMIT reached'' PNone
          (Some (info ''post'' (Some ''actor'') None [])) None"
  using classification [of "''Token LIMIT reached''"] classify_examples
  by (simp add: dict_get_def)

section \<open>Validation before the network\<close>

text \<open>
  C7 at an explicit input: a call to \<^verbatim>\<open>request\<close> with neither an endpoint name
  nor an absolute URL. The call fails before any request is sent, but line 80 raises
  a \<^verbatim>\<open>KworkApiException\<close>, where the guards of the same kind in \<^verbatim>\<open>get_projects\<close>
  (line 208) and \<^verbatim>\<open>send_message\<close> (line 293) raise
  \<^verbatim>\<open>KworkValidationException\<close>: the exception the caller receives is not of the
  validation class.
\<close>

theorem no_endpoint_counterexample:
  "request 1 net_rate_limit ''post'' None None 10 False [] example_client =
     Some (Inl (Exn KworkApiException msg_need_endpoint PNone None None),
           example_client\<lparr>logs := [Debug_Request ''post'' None []]\<rparr>)
   \<and> \<not> raises (Inl (Exn KworkApiException msg_need_endpoint PNone None None) :: exn + pyval)
         KworkValidationException"
  by (simp add: request.simps Let_def drop_none_def sanitize_def example_client_def raises_def)

text \<open>
  What the code does for every such call, with the endpoint name and the URL each
  absent or empty: given any fuel the call returns, with that exception, and the
  client is left as it was but for the one log record of line 77. Nothing is sent and
  the cached token is untouched.
\<close>

lemma no_endpoint:
  assumes "\<not> truthy_str api_method" and "\<not> truthy_str full_url"
  shows "request (Suc n) net meth api_method full_url timeout retried kwargs s =
           Some (Inl (Exn KworkApiException msg_need_endpoint PNone None None),
                 s\<lparr>logs := logs s @
                      [Debug_Request meth api_method (sanitize (drop_none kwargs))]\<rparr>)"
  using assms by (rule request_no_endpoint)

lemma no_endpoint_witness:
  "\<not> truthy_str None \<and> \<not> truthy_str (Some [])
   \<and> request (Suc 0) net_rate_limit ''post'' None (Some []) 10 False
        [(''token'', PStr ''stale'')] example_client =
      Some (Inl (Exn KworkApiException msg_need_endpoint PNone None None),
            example_client\<lparr>logs := logs example_client @
               [Debug_Request ''post'' None (sanitize (drop_none [(''token'', PStr ''stale'')]))]\<rparr>)
   \<and> sent example_client = []"
  using no_endpoint [of None "Some []" 0 net_rate_limit "''post''" 10 False
      "[(''token'', PStr ''stale'')]" example_client]
  by (simp add: example_client_def)

text \<open>
  C9: \<^verbatim>\<open>send_message\<close> with a falsy text (the empty string) or a falsy recipient
  id (\<^verbatim>\<open>None\<close>, or 0), and \<^verbatim>\<open>get_projects\<close> with an empty category list, raise
  \<^verbatim>\<open>KworkValidationException\<close> and leave the client exactly as it was: no request
  is sent, no token is acquired, and no fuel is needed.
\<close>

theorem validation_before_network:
  "(\<not> truthy txt \<or> \<not> truthy user_id \<longrightarrow>
      send_message fuel net user_id txt s =
        Some (Inl (Exn KworkValidationException msg_message_empty PNone None None), s))
   \<and> get_projects fuel net model [] price_from price_to hiring_from kworks_filter_from
        kworks_filter_to page query s =
        Some (Inl (Exn KworkValidationException msg_categories_empty PNone None None), s)"
  by (simp add: send_message_def get_projects_def)

theorem validation_before_network_witness:
  "\<not> truthy (PStr [])
   \<and> send_message 0 net_projects (PInt 7) (PStr []) fresh_client =
        Some (Inl (Exn KworkValidationException msg_message_empty PNone None None), fresh_client)
   \<and> \<not> truthy PNone
   \<and> send_message 0 net_projects PNone (PStr ''hello'') fresh_client =
        Some (Inl (Exn KworkValidationException msg_message_empty PNone None None), fresh_client)
   \<and> get_projects 0 net_projects raw_model [] PNone PNone PNone PNone PNone PNone PNone
        fresh_client =
        Some (Inl (Exn KworkValidationException msg_categories_empty PNone None None), fresh_client)
   \<and> sent fresh_client = [] \<and> cached_token fresh_client = PNone"
  using validation_before_network [of "PStr []" "PInt 7" 0 net_projects fresh_client raw_model
      PNone PNone PNone PNone PNone PNone PNone]
    validation_before_network [of "PStr ''hello''" PNone 0 net_projects fresh_client raw_model
      PNone PNone PNone PNone PNone PNone PNone]
  by (simp add: fresh_client_def example_client_def)

section \<open>Failures reported by the service\<close>

text \<open>
  C2 at an explicit input: the service answers with a false success flag and the
  message \<^verbatim>\<open>Rate limit exceeded\<close>. The \<^verbatim>\<open>KworkRateLimitException\<close> raised at line
  100 is caught by \<^verbatim>\<open>except Exception\<close> at line 124, and the caller receives a
  \<^verbatim>\<open>KworkException\<close> that wraps it. One request is sent; there is no retry.
\<close>

theorem rate_limit_is_wrapped:
  "request 1 net_rate_limit ''post'' (Some ''actor'') None 10 False
     [(''token'', PStr ''stale'')] example_client =
   Some (Inl (Exn KworkException (msg_unknown @ ''Rate limit exceeded'') PNone
                (Some (info ''post'' (Some ''actor'') None [(''token'', PStr ''stale'')]))
                (Some (Exn KworkRateLimitException ''Rate limit exceeded'' PNone
                         (Some (info ''post'' (Some ''actor'') None [(''token'', PStr ''stale'')]))
                         None))),
         example_client
           \<lparr>sent := [mk_request example_client ''post'' (BASE_URL @ ''actor'')
                      [(''token'', PStr ''stale'')] 10],
            logs := [Debug_Request ''post'' (Some ''actor'') [(''token'', redaction_marker)],
                     Debug_Response 200 (PBool False), Error_Unexpected]\<rparr>)"
  by (simp add: request.simps Let_def drop_none_def sanitize_def attempt_def try_body_def
      net_rate_limit_def json_reply_def failure_body_def check_response_def dict_get_def
      raise_failure_def dict_get_default_def classify_examples wrap_def build_url_def
      mk_request_def info_def example_client_def)

section \<open>The retry after an authentication failure\<close>

text \<open>
  C1, as the code has it: when the first attempt of a call with \<^verbatim>\<open>retried\<close> false
  is left by a \<^verbatim>\<open>KworkAuthException\<close>, the cached token is set to \<^verbatim>\<open>None\<close> and
  the token is asked for again. If that yields a token \<open>t\<close>, then \<open>t\<close> comes from
  \<^verbatim>\<open>get_token\<close> (a sign-in), it is the cached token afterwards, and the call is the
  same request issued once more with \<^verbatim>\<open>retried\<close> true and \<open>t\<close> under \<^verbatim>\<open>token\<close>.
  If that second attempt is left by a \<^verbatim>\<open>KworkAuthException\<close> too, this exception is
  raised to the caller, and the second attempt sent exactly one request: there is no
  third.
\<close>

theorem auth_retry_once:
  assumes endpoint: "truthy_str api_method \<or> truthy_str full_url"
    and first: "attempt net meth api_method full_url timeout (drop_none kwargs)
           (s\<lparr>logs := logs s @ [Debug_Request meth api_method (sanitize (drop_none kwargs))]\<rparr>)
         = (Inl e, s3)"
    and auth: "exn_class e = KworkAuthException"
    and refresh: "token n net (s3\<lparr>logs := logs s3 @ [Warning_Auth_Retry], cached_token := PNone\<rparr>)
         = Some (Inr t, s4)"
  shows "t \<noteq> PNone \<and> cached_token s4 = t
    \<and> (\<exists>s'. get_token n net
               (s3\<lparr>logs := logs s3 @ [Warning_Auth_Retry], cached_token := PNone\<rparr>)
             = Some (Inr t, s') \<and> s4 = s'\<lparr>cached_token := t\<rparr>)
    \<and> request (Suc n) net meth api_method full_url timeout False kwargs s =
        request n net meth api_method full_url timeout True
          (AList.update ''token'' t (drop_none kwargs)) s4
    \<and> (\<forall>e2 s5.
          attempt net meth api_method full_url timeout (AList.update ''token'' t (drop_none kwargs))
            (s4\<lparr>logs := logs s4 @
                 [Debug_Request meth api_method
                    (sanitize (AList.update ''token'' t (drop_none kwargs)))]\<rparr>)
            = (Inl e2, s5)
          \<and> exn_class e2 = KworkAuthException
          \<longrightarrow> request (Suc n) net meth api_method full_url timeout False kwargs s =
                Some (Inl e2, s5\<lparr>logs := logs s5 @ [Error_Auth_Failed]\<rparr>)
              \<and> sent s5 = sent s4 @
                  [mk_request s4 meth (build_url api_method full_url)
                     (AList.update ''token'' t (drop_none kwargs)) timeout])"
proof -
  from refresh have t: "t \<noteq> PNone" "cached_token s4 = t"
    by (simp_all add: token_cached)
  from refresh have signin: "\<exists>s'. get_token n net
               (s3\<lparr>logs := logs s3 @ [Warning_Auth_Retry], cached_token := PNone\<rparr>)
             = Some (Inr t, s') \<and> s4 = s'\<lparr>cached_token := t\<rparr>"
    by (auto simp: token_unfold split: option.splits sum.splits)
  from refresh obtain m where n: "n = Suc m"
    by (cases n) (simp_all add: token_needs_fuel)
  from endpoint first auth refresh
  have retry: "request (Suc n) net meth api_method full_url timeout False kwargs s =
        request n net meth api_method full_url timeout True
          (AList.update ''token'' t (drop_none kwargs)) s4"
    by (simp add: request_auth_first)
  have "request (Suc n) net meth api_method full_url timeout False kwargs s =
            Some (Inl e2, s5\<lparr>logs := logs s5 @ [Error_Auth_Failed]\<rparr>)
          \<and> sent s5 = sent s4 @
              [mk_request s4 meth (build_url api_method full_url)
                 (AList.update ''token'' t (drop_none kwargs)) timeout]"
    if second: "attempt net meth api_method full_url timeout
            (AList.update ''token'' t (drop_none kwargs))
            (s4\<lparr>logs := logs s4 @
                 [Debug_Request meth api_method
                    (sanitize (AList.update ''token'' t (drop_none kwargs)))]\<rparr>)
            = (Inl e2, s5)"
      and auth2: "exn_class e2 = KworkAuthException"
    for e2 s5
  proof -
    from second t(1) have "attempt net meth api_method full_url timeout
            (drop_none (AList.update ''token'' t (drop_none kwargs)))
            (s4\<lparr>logs := logs s4 @
                 [Debug_Request meth api_method
                    (sanitize (drop_none (AList.update ''token'' t (drop_none kwargs))))]\<rparr>)
            = (Inl e2, s5)"
      by (simp add: drop_none_update)
    with endpoint
    have "request (Suc m) net meth api_method full_url timeout True
            (AList.update ''token'' t (drop_none kwargs)) s4 =
          Some (Inl e2, s5\<lparr>logs := logs s5 @ [Error_Auth_Failed]\<rparr>)"
      using auth2 by (rule request_auth_retried)
    moreover from second have "sent s5 = sent s4 @
              [mk_request s4 meth (build_url api_method full_url)
                 (AList.update ''token'' t (drop_none kwargs)) timeout]"
      by (simp add: attempt_sent mk_request_def)
    ultimately show ?thesis
      using retry n by simp
  qed
  with t retry signin show ?thesis by blast
qed

theorem auth_retry_once_witness:
  "truthy_str (Some ''actor'')
   \<and> fst (attempt (net_token_rejected True) ''post'' (Some ''actor'') None 10
            (drop_none [(''token'', PStr ''stale'')])
            (example_client\<lparr>logs := logs example_client @
               [Debug_Request ''post'' (Some ''actor'')
                  (sanitize (drop_none [(''token'', PStr ''stale'')]))]\<rparr>))
       = Inl (Exn KworkAuthException ''Invalid token'' PNone
                (Some (info ''post'' (Some ''actor'') None [(''token'', PStr ''stale'')])) None)
   \<and> map_option fst
        (request (Suc 2) (net_token_rejected True) ''post'' (Some ''actor'') None 10 False
           [(''token'', PStr ''stale'')] example_client)
       = Some (Inl (Exn KworkAuthException ''Invalid token'' PNone
                (Some (info ''post'' (Some ''actor'') None [(''token'', PStr ''fresh'')])) None))
   \<and> map_option (map req_url \<circ> sent \<circ> snd)
        (request (Suc 2) (net_token_rejected True) ''post'' (Some ''actor'') None 10 False
           [(''token'', PStr ''stale'')] example_client)
       = Some [BASE_URL @ ''actor'', BASE_URL @ ''signIn'', BASE_URL @ ''actor'']
   \<and> map_option (cached_token \<circ> snd)
        (request (Suc 2) (net_token_rejected True) ''post'' (Some ''actor'') None 10 False
           [(''token'', PStr ''stale'')] example_client)
       = Some (PStr ''fresh'')"
proof -
  let ?net = "net_token_rejected True"
  let ?kw = "[(''token'', PStr ''stale'')]"
  let ?A = "attempt ?net ''post'' (Some ''actor'') None 10 (drop_none ?kw)
            (example_client\<lparr>logs := logs example_client @
               [Debug_Request ''post'' (Some ''actor'') (sanitize (drop_none ?kw))]\<rparr>)"
  let ?e1 = "Exn KworkAuthException ''Invalid token'' PNone
                (Some (info ''post'' (Some ''actor'') None [(''token'', PStr ''stale'')])) None"
  let ?e2 = "Exn KworkAuthException ''Invalid token'' PNone
                (Some (info ''post'' (Some ''actor'') None [(''token'', PStr ''fresh'')])) None"
  let ?T = "token 2 ?net ((snd ?A)\<lparr>logs := logs (snd ?A) @ [Warning_Auth_Retry],
                                     cached_token := PNone\<rparr>)"
  let ?s4 = "snd (the ?T)"
  let ?B = "attempt ?net ''post'' (Some ''actor'') None 10
              (AList.update ''token'' (PStr ''fresh'') (drop_none ?kw))
              (?s4\<lparr>logs := logs ?s4 @
                 [Debug_Request ''post'' (Some ''actor'')
                    (sanitize (AList.update ''token'' (PStr ''fresh'') (drop_none ?kw)))]\<rparr>)"
  have ep: "truthy_str (Some ''actor'') \<or> truthy_str None"
    by simp
  have a: "fst ?A = Inl ?e1"
    by code_simp
  then have first: "?A = (Inl ?e1, snd ?A)"
    by (simp add: prod_eq_iff)
  have auth: "exn_class ?e1 = KworkAuthException"
    by simp
  have "map_option fst ?T = Some (Inr (PStr ''fresh''))"
    by code_simp
  then have refresh: "?T = Some (Inr (PStr ''fresh''), ?s4)"
    by (cases ?T) (auto simp: prod_eq_iff)
  have b: "fst ?B = Inl ?e2"
    by code_simp
  then have second: "?B = (Inl ?e2, snd ?B)"
    by (simp add: prod_eq_iff)
  have urls: "map req_url (sent (snd ?B)) =
      [BASE_URL @ ''actor'', BASE_URL @ ''signIn'', BASE_URL @ ''actor'']"
    by code_simp
  have tok: "cached_token (snd ?B) = PStr ''fresh''"
    by code_simp
  have auth2: "exn_class ?e2 = KworkAuthException"
    by simp
  note all = auth_retry_once [OF ep first auth refresh]
  from all have "\<forall>e2 s5. ?B = (Inl e2, s5) \<and> exn_class e2 = KworkAuthException \<longrightarrow>
      request (Suc 2) ?net ''post'' (Some ''actor'') None 10 False ?kw example_client =
        Some (Inl e2, s5\<lparr>logs := logs s5 @ [Error_Auth_Failed]\<rparr>)"
    by blast
  with second auth2
  have run: "request (Suc 2) ?net ''post'' (Some ''actor'') None 10 False ?kw example_client =
          Some (Inl ?e2, (snd ?B)\<lparr>logs := logs (snd ?B) @ [Error_Auth_Failed]\<rparr>)"
    by blast
  have "map_option fst
        (request (Suc 2) ?net ''post'' (Some ''actor'') None 10 False ?kw example_client)
       = Some (Inl ?e2)"
    by (simp only: run option.map fst_conv)
  moreover have "map_option (map req_url \<circ> sent \<circ> snd)
        (request (Suc 2) ?net ''post'' (Some ''actor'') None 10 False ?kw example_client)
       = Some [BASE_URL @ ''actor'', BASE_URL @ ''signIn'', BASE_URL @ ''actor'']"
    unfolding run using urls by simp
  moreover have "map_option (cached_token \<circ> snd)
        (request (Suc 2) ?net ''post'' (Some ''actor'') None 10 False ?kw example_client)
       = Some (PStr ''fresh'')"
    unfolding run using tok by simp
  ultimately show ?thesis
    using a by (simp only: truthy_str.simps) simp
qed

text \<open>
  The claim without the proviso fails: here the first attempt is left by a
  \<^verbatim>\<open>KworkAuthException\<close>, the sign-in is answered with a wrong password, no token
  is obtained, the request is not issued again (two requests went out, the second
  being the sign-in), and the caller receives the error of the sign-in.
\<close>

theorem auth_retry_counterexample:
  "fst (attempt (net_token_rejected False) ''post'' (Some ''actor'') None 10
          [(''token'', PStr ''stale'')]
          (example_client\<lparr>logs := [Debug_Request ''post'' (Some ''actor'')
                                      [(''token'', redaction_marker)]]\<rparr>))
     = Inl (Exn KworkAuthException ''Invalid token'' PNone
              (Some (info ''post'' (Some ''actor'') None [(''token'', PStr ''stale'')])) None)
   \<and> request 3 (net_token_rejected False) ''post'' (Some ''actor'') None 10 False
        [(''token'', PStr ''stale'')] example_client
     = Some (Inl (Exn KworkException (msg_unknown @ ''Wrong password'') PNone
                    (Some (info ''post'' (Some ''signIn'') None (drop_none (sign_in_params example_client))))
                    (Some (Exn KworkApiException ''Wrong password'' PNone
                       (Some (info ''post'' (Some ''signIn'') None (drop_none (sign_in_params example_client))))
                       None))),
             example_client
               \<lparr>cached_token := PNone,
                sent := [mk_request example_client ''post'' (BASE_URL @ ''actor'')
                           [(''token'', PStr ''stale'')] 10,
                         mk_request example_client ''post'' (BASE_URL @ ''signIn'')
                           (drop_none (sign_in_params example_client)) 10],
                logs := [Debug_Request ''post'' (Some ''actor'') [(''token'', redaction_marker)],
                         Debug_Response 200 (PBool False), Warning_Auth_Retry,
                         Debug_Request ''post'' (Some ''signIn'')
                           (sanitize (drop_none (sign_in_params example_client))),
                         Debug_Response 200 (PBool False), Error_Unexpected]\<rparr>)"
  by code_simp

section \<open>Redaction of the sensitive parameters\<close>

text \<open>
  C8: for every call of \<^verbatim>\<open>request\<close> that returns, whatever its keyword arguments
  (a dict, so the keys are distinct): the logged parameter map has the keys of the
  outgoing parameters, holds the marker under \<^verbatim>\<open>password\<close> and \<^verbatim>\<open>token\<close> where
  these are present, and the other values unchanged; it is what the first log record
  of the call prints; every log record written during the call, sign-in and retry
  included, is redacted; and so is the request context of an exception raised to the
  caller, and of the exception it was raised from.
\<close>

theorem secrets_redacted:
  assumes "distinct (map fst kwargs)"
    and "request n net meth api_method full_url timeout retried kwargs s = Some (r, s')"
  shows "map fst (sanitize (drop_none kwargs)) = map fst (drop_none kwargs)
     \<and> (\<forall>k. map_of (sanitize (drop_none kwargs)) k =
            (if sensitive k \<and> map_of (drop_none kwargs) k \<noteq> None
             then Some redaction_marker else map_of (drop_none kwargs) k))
     \<and> prefix (logs s @ [Debug_Request meth api_method (sanitize (drop_none kwargs))]) (logs s')
     \<and> list_all log_redacted (drop (length (logs s)) (logs s'))
     \<and> (\<forall>e. r = Inl e \<longrightarrow> exn_redacted e)"
proof -
  from assms have "redacts s s' \<and> (\<forall>e. r = Inl e \<longrightarrow> exn_redacted e)"
    by (rule request_redacts)
  moreover from assms(2)
  have "prefix (logs s @ [Debug_Request meth api_method (sanitize (drop_none kwargs))]) (logs s')"
    by (rule request_logs_first)
  ultimately show ?thesis
    by (simp add: keys_sanitize map_of_sanitize redacts_def)
qed

theorem secrets_redacted_witness:
  "distinct (map fst [(''token'', PStr ''stale''), (''password'', PStr ''hunter2''),
                      (''note'', PNone), (''login'', PStr ''worker'')])
   \<and> map_option fst
        (request (Suc 2) (net_token_rejected True) ''post'' (Some ''actor'') None 10 False
           [(''token'', PStr ''stale''), (''password'', PStr ''hunter2''),
            (''note'', PNone), (''login'', PStr ''worker'')] example_client)
       = Some (Inl (Exn KworkAuthException ''Invalid token'' PNone
            (Some \<lparr>ri_method = ''post'', ri_url = ''https://api.kwork.ru/actor'',
                   ri_params = [(''token'', PStr ''***''), (''password'', PStr ''***''),
                                (''login'', PStr ''worker'')]\<rparr>) None))
   \<and> sanitize (drop_none [(''token'', PStr ''stale''), (''password'', PStr ''hunter2''),
                           (''note'', PNone), (''login'', PStr ''worker'')])
       = [(''token'', PStr ''***''), (''password'', PStr ''***''), (''login'', PStr ''worker'')]
   \<and> map_option (list_all log_redacted \<circ> logs \<circ> snd)
        (request (Suc 2) (net_token_rejected True) ''post'' (Some ''actor'') None 10 False
           [(''token'', PStr ''stale''), (''password'', PStr ''hunter2''),
            (''note'', PNone), (''login'', PStr ''worker'')] example_client)
       = Some True
   \<and> exn_redacted (Exn KworkAuthException ''Invalid token'' PNone
            (Some \<lparr>ri_method = ''post'', ri_url = ''https://api.kwork.ru/actor'',
                   ri_params = [(''token'', PStr ''***''), (''password'', PStr ''***''),
                                (''login'', PStr ''worker'')]\<rparr>) None)"
proof -
  let ?kw = "[(''token'', PStr ''stale''), (''password'', PStr ''hunter2''),
              (''note'', PNone), (''login'', PStr ''worker'')]"
  let ?R = "request (Suc 2) (net_token_rejected True) ''post'' (Some ''actor'') None 10 False
              ?kw example_client"
  let ?e = "Exn KworkAuthException ''Invalid token'' PNone
            (Some \<lparr>ri_method = ''post'', ri_url = ''https://api.kwork.ru/actor'',
                   ri_params = [(''token'', PStr ''***''), (''password'', PStr ''***''),
                                (''login'', PStr ''worker'')]\<rparr>) None"
  have d: "distinct (map fst ?kw)"
    by simp
  have r: "map_option fst ?R = Some (Inl ?e)"
    by code_simp
  then have run: "?R = Some (Inl ?e, snd (the ?R))"
    by (cases ?R) (auto simp: prod_eq_iff)
  have san: "sanitize (drop_none ?kw) =
      [(''token'', PStr ''***''), (''password'', PStr ''***''), (''login'', PStr ''worker'')]"
    by code_simp
  have l0: "logs example_client = []"
    by (simp add: example_client_def)
  note inst = secrets_redacted [OF d run]
  from inst have "list_all log_redacted (drop (length (logs example_client)) (logs (snd (the ?R))))"
    by blast
  then have "list_all log_redacted (logs (snd (the ?R)))"
    by (simp add: l0)
  then have logs_ok: "map_option (list_all log_redacted \<circ> logs \<circ> snd) ?R = Some True"
    by (subst run) simp
  from inst have "exn_redacted ?e"
    by blast
  with d r san logs_ok show ?thesis
    by blast
qed

section \<open>Fetching all pages\<close>

text \<open>
  C4, as the code has it: when the call of \<^verbatim>\<open>request\<close> for page 1 returns a body
  with no paging metadata (absent or falsy) or with a page count of at most 1,
  \<^verbatim>\<open>_fetch_paginated_data\<close> returns exactly the records of that body and leaves the
  client as that one call left it: nothing is requested after it. The call itself
  sends a single network request unless its first attempt is left by a
  \<^verbatim>\<open>KworkAuthException\<close>, in which case it signs in and issues the request again.
\<close>

theorem single_page:
  assumes nopage: "map_of params ''page'' = None"
    and first: "request fuel net ''post'' (Some api_method) None 10 False
                  ((''page'', PInt 1) # params) s = Some (Inr (PDict d), s1)"
    and single: "\<not> truthy (dict_get d ''paging'') \<or>
                 (\<exists>pg n. dict_get d ''paging'' = PDict pg \<and>
                    page_count (dict_get_default pg ''pages'' (PInt 1)) = Inr n \<and> n \<le> 1)"
  shows "fetch_paginated_data fuel net model api_method params s =
           Some (records model (dict_get_default d ''response'' (PList [])), s1)
     \<and> ((\<forall>e. fst (attempt net ''post'' (Some api_method) None 10
                    (drop_none ((''page'', PInt 1) # params))
                    (s\<lparr>logs := logs s @
                       [Debug_Request ''post'' (Some api_method)
                          (sanitize (drop_none ((''page'', PInt 1) # params)))]\<rparr>)) = Inl e
              \<longrightarrow> exn_class e \<noteq> KworkAuthException)
          \<longrightarrow> sent s1 = sent s @
                [mk_request s ''post'' (BASE_URL @ api_method)
                   (drop_none ((''page'', PInt 1) # params)) 10])"
proof -
  from single have "fetch_paginated_data fuel net model api_method params s =
           Some (records model (dict_get_default d ''response'' (PList [])), s1)"
    using nopage first
    by (auto simp: fetch_paginated_data_def py_get_def)
  moreover from first have "truthy_str (Some api_method) \<or> truthy_str None"
    by (rule request_needs_endpoint)
  then have "build_url (Some api_method) None = BASE_URL @ api_method"
    by (simp add: build_url_def)
  with request_sends_once [OF first \<open>truthy_str (Some api_method) \<or> truthy_str None\<close>]
  have "(\<forall>e. fst (attempt net ''post'' (Some api_method) None 10
                    (drop_none ((''page'', PInt 1) # params))
                    (s\<lparr>logs := logs s @
                       [Debug_Request ''post'' (Some api_method)
                          (sanitize (drop_none ((''page'', PInt 1) # params)))]\<rparr>)) = Inl e
              \<longrightarrow> exn_class e \<noteq> KworkAuthException)
          \<longrightarrow> sent s1 = sent s @
                [mk_request s ''post'' (BASE_URL @ api_method)
                   (drop_none ((''page'', PInt 1) # params)) 10]"
    by simp
  ultimately show ?thesis by blast
qed

theorem single_page_witness:
  "map_of [(''username'', PStr ''bob''), (''token'', PStr ''stale'')] ''page'' = None
   \<and> map_option fst
        (request 1 net_dialogs ''post'' (Some ''inboxes'') None 10 False
           ((''page'', PInt 1) # [(''username'', PStr ''bob''), (''token'', PStr ''stale'')])
           example_client)
       = Some (Inr (PDict [(''success'', PBool True),
                           (''response'', PList [item 1, item 2, item 3])]))
   \<and> \<not> truthy (dict_get [(''success'', PBool True),
                           (''response'', PList [item 1, item 2, item 3])] ''paging'')
   \<and> map_option fst
        (fetch_paginated_data 1 net_dialogs raw_model ''inboxes''
           [(''username'', PStr ''bob''), (''token'', PStr ''stale'')] example_client)
       = Some (Inr [[(''id'', PInt 1)], [(''id'', PInt 2)], [(''id'', PInt 3)]])
   \<and> map_option (sent \<circ> snd)
        (fetch_paginated_data 1 net_dialogs raw_model ''inboxes''
           [(''username'', PStr ''bob''), (''token'', PStr ''stale'')] example_client)
       = Some [mk_request example_client ''post'' (BASE_URL @ ''inboxes'')
                 [(''page'', PInt 1), (''username'', PStr ''bob''), (''token'', PStr ''stale'')]
                 10]"
proof -
  let ?kw = "[(''username'', PStr ''bob''), (''token'', PStr ''stale'')]"
  let ?d = "[(''success'', PBool True), (''response'', PList [item 1, item 2, item 3])]"
  let ?R = "request 1 net_dialogs ''post'' (Some ''inboxes'') None 10 False
              ((''page'', PInt 1) # ?kw) example_client"
  let ?F = "fetch_paginated_data 1 net_dialogs raw_model ''inboxes'' ?kw example_client"
  have nopage: "map_of ?kw ''page'' = None"
    by simp
  have r: "map_option fst ?R = Some (Inr (PDict ?d))"
    by code_simp
  then have run: "?R = Some (Inr (PDict ?d), snd (the ?R))"
    by (rule some_pair)
  have single: "\<not> truthy (dict_get ?d ''paging'')"
    by (simp add: dict_get_def)
  note inst = single_page [OF nopage run disjI1 [OF single], of raw_model]
  have recs: "records raw_model (dict_get_default ?d ''response'' (PList [])) =
      Inr [[(''id'', PInt 1)], [(''id'', PInt 2)], [(''id'', PInt 3)]]"
    by code_simp
  have direct: "fst (attempt net_dialogs ''post'' (Some ''inboxes'') None 10
                    (drop_none ((''page'', PInt 1) # ?kw))
                    (example_client\<lparr>logs := logs example_client @
                       [Debug_Request ''post'' (Some ''inboxes'')
                          (sanitize (drop_none ((''page'', PInt 1) # ?kw)))]\<rparr>))
                = Inr (PDict ?d)"
    by code_simp
  have params: "drop_none ((''page'', PInt 1) # ?kw) = (''page'', PInt 1) # ?kw"
    by (simp add: drop_none_def)
  have sent0: "sent example_client = []"
    by (simp add: example_client_def)
  from inst have f: "?F = Some (records raw_model (dict_get_default ?d ''response'' (PList [])),
      snd (the ?R))"
    by blast
  from inst direct have "sent (snd (the ?R)) = sent example_client @
      [mk_request example_client ''post'' (BASE_URL @ ''inboxes'')
         (drop_none ((''page'', PInt 1) # ?kw)) 10]"
    by simp
  then have s: "sent (snd (the ?R)) =
      [mk_request example_client ''post'' (BASE_URL @ ''inboxes'') ((''page'', PInt 1) # ?kw) 10]"
    by (simp only: params sent0 append_Nil)
  have "map_option fst ?F = Some (Inr [[(''id'', PInt 1)], [(''id'', PInt 2)], [(''id'', PInt 3)]])"
    unfolding f using recs by simp
  moreover have "map_option (sent \<circ> snd) ?F =
      Some [mk_request example_client ''post'' (BASE_URL @ ''inboxes'') ((''page'', PInt 1) # ?kw) 10]"
    unfolding f using s by simp
  ultimately show ?thesis
    using nopage r single by simp
qed

text \<open>
  The claim with exactly one network request fails when the token has expired: the
  response that reaches \<^verbatim>\<open>_fetch_paginated_data\<close> carries no paging metadata and
  its one record is returned, but three requests went out (page 1, the sign-in, and
  page 1 again).
\<close>

theorem single_page_counterexample:
  "map_option fst
     (request 3 net_expired ''post'' (Some ''inboxes'') None 10 False
        [(''page'', PInt 1), (''username'', PStr ''bob''), (''token'', PStr ''stale'')]
        example_client)
     = Some (Inr (PDict [(''success'', PBool True), (''response'', PList [item 1])]))
   \<and> dict_get [(''success'', PBool True), (''response'', PList [item 1])] ''paging'' = PNone
   \<and> map_option fst
        (fetch_paginated_data 3 net_expired raw_model ''inboxes''
           [(''username'', PStr ''bob''), (''token'', PStr ''stale'')] example_client)
       = Some (Inr [[(''id'', PInt 1)]])
   \<and> map_option (map req_url \<circ> sent \<circ> snd)
        (fetch_paginated_data 3 net_expired raw_model ''inboxes''
           [(''username'', PStr ''bob''), (''token'', PStr ''stale'')] example_client)
       = Some [BASE_URL @ ''inboxes'', BASE_URL @ ''signIn'', BASE_URL @ ''inboxes'']"
  by code_simp

text \<open>
  C3: the metadata of page 1 reports 5 pages, the calls of \<^verbatim>\<open>request\<close> for pages
  2, 4 and 5 return bodies and the call for page 3 raises. Then
  \<^verbatim>\<open>_fetch_paginated_data\<close> returns the records of pages 1, 2, 4 and 5, in this
  order, each built by the record class, and raises nothing; the failure of page 3
  is logged. The gathered calls are taken in the order of their tasks, and the record
  class is taken to accept each record.
\<close>

theorem partial_failure:
  assumes nopage: "map_of params ''page'' = None"
    and p1: "request fuel net ''post'' (Some api_method) None 10 False
               ((''page'', PInt 1) # params) s = Some (Inr (PDict d1), s1)"
    and paging: "map_of d1 ''paging'' = Some (PDict pg)"
    and pages: "map_of pg ''pages'' = Some (PInt 5)"
    and p2: "request fuel net ''post'' (Some api_method) None 10 False
               ((''page'', PInt 2) # params) s1 = Some (Inr (PDict d2), s2)"
    and p3: "request fuel net ''post'' (Some api_method) None 10 False
               ((''page'', PInt 3) # params) s2 = Some (Inl e, s3)"
    and p4: "request fuel net ''post'' (Some api_method) None 10 False
               ((''page'', PInt 4) # params) s3 = Some (Inr (PDict d4), s4)"
    and p5: "request fuel net ''post'' (Some api_method) None 10 False
               ((''page'', PInt 5) # params) s4 = Some (Inr (PDict d5), s5)"
    and r1: "dict_get_default d1 ''response'' (PList []) = PList r1"
    and r2: "dict_get_default d2 ''response'' (PList []) = PList r2"
    and r4: "dict_get_default d4 ''response'' (PList []) = PList r4"
    and r5: "dict_get_default d5 ''response'' (PList []) = PList r5"
    and dec: "\<forall>x\<in>set (r1 @ r2 @ r4 @ r5). construct model x = Inr (dec x)"
  shows "fetch_paginated_data fuel net model api_method params s =
           Some (Inr (map dec (r1 @ r2 @ r4 @ r5)),
                 s5\<lparr>logs := logs s5 @ [Error_Page_Failed api_method e]\<rparr>)"
proof -
  from pages have pg: "truthy (PDict pg)"
    by auto
  have g: "gather fuel net api_method params [2, 3, 4, 5] s1 =
      Some ([Inr (PDict d2), Inl e, Inr (PDict d4), Inr (PDict d5)], s5)"
    using p2 p3 p4 p5 by simp
  have m: "merge_pages api_method [Inr (PDict d2), Inl e, Inr (PDict d4), Inr (PDict d5)]
             (PList r1) s5 =
           (Inr (PList (r1 @ r2 @ r4 @ r5)),
            s5\<lparr>logs := logs s5 @ [Error_Page_Failed api_method e]\<rparr>)"
    using r2 r4 r5 by (simp add: py_get_def extend_def iter_def)
  from dec have "records model (PList (r1 @ r2 @ r4 @ r5)) = Inr (map dec (r1 @ r2 @ r4 @ r5))"
    by (simp only: records_list construct_all_map)
  with nopage p1 paging pages pg g m r1 show ?thesis
    by (simp add: fetch_paginated_data_def dict_get_def py_get_def dict_get_default_def
        page_count_def upto_2_5)
qed

theorem partial_failure_witness:
  "map_of [(''username'', PStr ''bob''), (''token'', PStr ''stale'')] ''page'' = None
   \<and> map_option fst
        (request 1 net_page3_down ''post'' (Some ''inboxes'') None 10 False
           [(''page'', PInt 1), (''username'', PStr ''bob''), (''token'', PStr ''stale'')]
           example_client)
       = Some (Inr (paged_body (PList [item 1]) 5))
   \<and> raises
        (fst (attempt net_page3_down ''post'' (Some ''inboxes'') None 10
           [(''page'', PInt 3), (''username'', PStr ''bob''), (''token'', PStr ''stale'')]
           example_client))
        ClientError
   \<and> map_option fst
        (fetch_paginated_data 1 net_page3_down raw_model ''inboxes''
           [(''username'', PStr ''bob''), (''token'', PStr ''stale'')] example_client)
       = Some (Inr [[(''id'', PInt 1)], [(''id'', PInt 2)], [(''id'', PInt 4)],
                    [(''id'', PInt 5)]])
   \<and> map_option (map (\<lambda>r. map_of (req_params r) ''page'') \<circ> sent \<circ> snd)
        (fetch_paginated_data 1 net_page3_down raw_model ''inboxes''
           [(''username'', PStr ''bob''), (''token'', PStr ''stale'')] example_client)
       = Some [Some (PInt 1), Some (PInt 2), Some (PInt 3), Some (PInt 4), Some (PInt 5)]"
proof -
  let ?kw = "[(''username'', PStr ''bob''), (''token'', PStr ''stale'')]"
  let ?net = net_page3_down
  let ?F = "fetch_paginated_data 1 ?net raw_model ''inboxes'' ?kw example_client"
  let ?pg = "[(''pages'', PInt 5)]"
  let ?d = "\<lambda>p. [(''success'', PBool True), (''response'', PList [item p]),
                 (''paging'', PDict ?pg)]"
  let ?e = "Exn KworkConnectionException (msg_network @ ''Connection reset'') PNone
              (Some (info ''post'' (Some ''inboxes'') None ((''page'', PInt 3) # ?kw)))
              (Some (Exn ClientError ''Connection reset'' PNone None None))"
  let ?R1 = "request 1 ?net ''post'' (Some ''inboxes'') None 10 False
               ((''page'', PInt 1) # ?kw) example_client"
  let ?s1 = "snd (the ?R1)"
  let ?R2 = "request 1 ?net ''post'' (Some ''inboxes'') None 10 False
               ((''page'', PInt 2) # ?kw) ?s1"
  let ?s2 = "snd (the ?R2)"
  let ?R3 = "request 1 ?net ''post'' (Some ''inboxes'') None 10 False
               ((''page'', PInt 3) # ?kw) ?s2"
  let ?s3 = "snd (the ?R3)"
  let ?R4 = "request 1 ?net ''post'' (Some ''inboxes'') None 10 False
               ((''page'', PInt 4) # ?kw) ?s3"
  let ?s4 = "snd (the ?R4)"
  let ?R5 = "request 1 ?net ''post'' (Some ''inboxes'') None 10 False
               ((''page'', PInt 5) # ?kw) ?s4"
  let ?s5 = "snd (the ?R5)"
  have nopage: "map_of ?kw ''page'' = None"
    by simp
  have "map_option fst ?R1 = Some (Inr (PDict (?d 1)))"
    by code_simp
  then have p1: "?R1 = Some (Inr (PDict (?d 1)), ?s1)"
    by (rule some_pair)
  have "map_option fst ?R2 = Some (Inr (PDict (?d 2)))"
    by code_simp
  then have p2: "?R2 = Some (Inr (PDict (?d 2)), ?s2)"
    by (rule some_pair)
  have "map_option fst ?R3 = Some (Inl ?e)"
    by code_simp
  then have p3: "?R3 = Some (Inl ?e, ?s3)"
    by (rule some_pair)
  have "map_option fst ?R4 = Some (Inr (PDict (?d 4)))"
    by code_simp
  then have p4: "?R4 = Some (Inr (PDict (?d 4)), ?s4)"
    by (rule some_pair)
  have "map_option fst ?R5 = Some (Inr (PDict (?d 5)))"
    by code_simp
  then have p5: "?R5 = Some (Inr (PDict (?d 5)), ?s5)"
    by (rule some_pair)
  have paging: "map_of (?d 1) ''paging'' = Some (PDict ?pg)"
    and pages: "map_of ?pg ''pages'' = Some (PInt 5)"
    by simp_all
  have r: "dict_get_default (?d p) ''response'' (PList []) = PList [item p]" for p
    by (simp add: dict_get_default_def)
  have dec: "\<forall>x\<in>set ([item 1] @ [item 2] @ [item 4] @ [item 5]).
      construct raw_model x = Inr (case x of PDict kv \<Rightarrow> kv | _ \<Rightarrow> [])"
    by (simp add: construct_def raw_model_def item_def)
  note inst = partial_failure [OF nopage p1 paging pages p2 p3 p4 p5 r r r r dec]
  have first: "map_option fst ?R1 = Some (Inr (paged_body (PList [item 1]) 5))"
    by code_simp
  have down: "raises (fst (attempt ?net ''post'' (Some ''inboxes'') None 10
      ((''page'', PInt 3) # ?kw) example_client)) ClientError"
    by code_simp
  have sent5: "map (\<lambda>r. map_of (req_params r) ''page'') (sent ?s5) =
      [Some (PInt 1), Some (PInt 2), Some (PInt 3), Some (PInt 4), Some (PInt 5)]"
    by code_simp
  have "map_option fst ?F =
      Some (Inr [[(''id'', PInt 1)], [(''id'', PInt 2)], [(''id'', PInt 4)], [(''id'', PInt 5)]])"
    unfolding inst by (simp add: item_def)
  moreover have "map_option (map (\<lambda>r. map_of (req_params r) ''page'') \<circ> sent \<circ> snd) ?F =
      Some [Some (PInt 1), Some (PInt 2), Some (PInt 3), Some (PInt 4), Some (PInt 5)]"
    unfolding inst using sent5 by simp
  ultimately show ?thesis
    using nopage first down by simp
qed

section \<open>The dialog listing\<close>

text \<open>
  C6: \<^verbatim>\<open>get_all_dialogs\<close> takes the token, then requests the pages 1, 2, 3 and so
  on, each from the client state the previous request left. If the pages 1 to \<open>n\<close>
  come back with a truthy \<^verbatim>\<open>response\<close> and page \<open>n + 1\<close> with a falsy one (an empty
  list), then, given fuel for \<open>n + 1\<close> rounds, the call returns the records of the
  pages 1 to \<open>n\<close> in request order, and leaves the client as the request for page
  \<open>n + 1\<close> left it: nothing is requested after the empty page. With pages of 3, 2 and
  0 records it returns 5 records and sends three requests.
\<close>

theorem sequential_fetch:
  fixes st :: "nat \<Rightarrow> client" and resp :: "nat \<Rightarrow> pyval" and recs :: "nat \<Rightarrow> 'r list"
  assumes tok: "token fuel net s = Some (Inr tok, st 0)"
    and fetch: "\<forall>k\<le>n. \<exists>d.
        request fuel net ''post'' (Some ''dialogs'') None 10 False
          (dialogs_params tok (int k + 1)) (st k) = Some (Inr (PDict d), st (Suc k))
        \<and> map_of d ''response'' = Some (resp k)"
    and full: "\<forall>k<n. truthy (resp k) \<and> records model (resp k) = Inr (recs k)"
    and empty: "\<not> truthy (resp n)"
    and fuel: "n < fuel"
  shows "get_all_dialogs fuel net model s =
           Some (Inr (concat (map recs [0..<n])), st (Suc n))
     \<and> length (concat (map recs [0..<n])) = (\<Sum>k<n. length (recs k))"
proof -
  from fuel have "n - 0 < fuel" by simp
  with dialogs_loop_run [OF fetch full empty, of 0 fuel "[]"]
  have "dialogs_loop fuel fuel net model tok 1 [] (st 0) =
           Some (Inr (concat (map recs [0..<n])), st (Suc n))"
    by simp
  with tok have "get_all_dialogs fuel net model s =
           Some (Inr (concat (map recs [0..<n])), st (Suc n))"
    by (simp add: get_all_dialogs_def)
  moreover have "length (concat (map recs [0..<n])) = (\<Sum>k<n. length (recs k))"
    by (simp add: length_concat comp_def sum_list_sum_nth atLeast0LessThan
        flip: sum_list_distinct_conv_sum_set)
  ultimately show ?thesis by simp
qed

theorem sequential_fetch_witness:
  "token 3 net_dialogs example_client = Some (Inr (PStr ''stale''), example_client)
   \<and> map_option fst (get_all_dialogs 3 net_dialogs raw_model example_client)
       = Some (Inr [[(''id'', PInt 1)], [(''id'', PInt 2)], [(''id'', PInt 3)],
                    [(''id'', PInt 4)], [(''id'', PInt 5)]])
   \<and> length [[(''id'', PInt 1)], [(''id'', PInt 2)], [(''id'', PInt 3)],
              [(''id'', PInt 4)], [(''id'', PInt 5)]] = 5
   \<and> map_option (map req_params \<circ> sent \<circ> snd)
        (get_all_dialogs 3 net_dialogs raw_model example_client)
       = Some [dialogs_params (PStr ''stale'') 1, dialogs_params (PStr ''stale'') 2,
               dialogs_params (PStr ''stale'') 3]"
proof -
  let ?net = net_dialogs
  let ?tok = "PStr ''stale''"
  let ?G = "get_all_dialogs 3 ?net raw_model example_client"
  let ?R0 = "request 3 ?net ''post'' (Some ''dialogs'') None 10 False
               (dialogs_params ?tok 1) example_client"
  let ?s1 = "snd (the ?R0)"
  let ?R1 = "request 3 ?net ''post'' (Some ''dialogs'') None 10 False
               (dialogs_params ?tok 2) ?s1"
  let ?s2 = "snd (the ?R1)"
  let ?R2 = "request 3 ?net ''post'' (Some ''dialogs'') None 10 False
               (dialogs_params ?tok 3) ?s2"
  let ?s3 = "snd (the ?R2)"
  let ?st = "\<lambda>k::nat. if k = 0 then example_client else if k = 1 then ?s1
                     else if k = 2 then ?s2 else ?s3"
  let ?resp = "\<lambda>k::nat. if k = 0 then PList [item 1, item 2, item 3]
                       else if k = 1 then PList [item 4, item 5] else PList []"
  let ?recs = "\<lambda>k::nat. if k = 0 then [[(''id'', PInt 1)], [(''id'', PInt 2)], [(''id'', PInt 3)]]
                       else if k = 1 then [[(''id'', PInt 4)], [(''id'', PInt 5)]] else []"
  let ?d = "\<lambda>k. [(''success'', PBool True), (''response'', ?resp k)]"
  have tok: "token 3 ?net example_client = Some (Inr ?tok, ?st 0)"
    by (simp add: token_unfold example_client_def)
  have "map_option fst ?R0 = Some (Inr (PDict (?d 0)))"
    by code_simp
  then have q0: "?R0 = Some (Inr (PDict (?d 0)), ?s1)"
    by (rule some_pair)
  have "map_option fst ?R1 = Some (Inr (PDict (?d 1)))"
    by code_simp
  then have q1: "?R1 = Some (Inr (PDict (?d 1)), ?s2)"
    by (rule some_pair)
  have "map_option fst ?R2 = Some (Inr (PDict (?d 2)))"
    by code_simp
  then have q2: "?R2 = Some (Inr (PDict (?d 2)), ?s3)"
    by (rule some_pair)
  have three: "k = 0 \<or> k = 1 \<or> k = 2" if "k \<le> 2" for k :: nat
    using that by arith
  have fetch: "\<forall>k\<le>2. \<exists>d.
        request 3 ?net ''post'' (Some ''dialogs'') None 10 False
          (dialogs_params ?tok (int k + 1)) (?st k) = Some (Inr (PDict d), ?st (Suc k))
        \<and> map_of d ''response'' = Some (?resp k)"
  proof (intro allI impI)
    fix k :: nat
    assume "k \<le> 2"
    then consider "k = 0" | "k = 1" | "k = 2"
      using three by blast
    then show "\<exists>d. request 3 ?net ''post'' (Some ''dialogs'') None 10 False
          (dialogs_params ?tok (int k + 1)) (?st k) = Some (Inr (PDict d), ?st (Suc k))
        \<and> map_of d ''response'' = Some (?resp k)"
    proof cases
      case 1
      with q0 show ?thesis by (intro exI [of _ "?d 0"]) simp
    next
      case 2
      with q1 show ?thesis by (intro exI [of _ "?d 1"]) simp
    next
      case 3
      with q2 show ?thesis by (intro exI [of _ "?d 2"]) simp
    qed
  qed
  have full: "\<forall>k<2. truthy (?resp k) \<and> records raw_model (?resp k) = Inr (?recs k)"
  proof (intro allI impI)
    fix k :: nat
    assume "k < 2"
    then have "k = 0 \<or> k = 1" by arith
    then show "truthy (?resp k) \<and> records raw_model (?resp k) = Inr (?recs k)"
      by (auto simp: records_def iter_def construct_def raw_model_def item_def)
  qed
  have empty: "\<not> truthy (?resp 2)"
    by simp
  have fuel: "(2::nat) < 3"
    by simp
  note inst = sequential_fetch [OF tok fetch full empty fuel, THEN conjunct1]
  have res: "concat (map ?recs [0..<2]) =
      [[(''id'', PInt 1)], [(''id'', PInt 2)], [(''id'', PInt 3)],
       [(''id'', PInt 4)], [(''id'', PInt 5)]]"
    by (simp add: upt_rec numeral_2_eq_2)
  have sent3: "map req_params (sent ?s3) =
      [dialogs_params ?tok 1, dialogs_params ?tok 2, dialogs_params ?tok 3]"
    by code_simp
  have tok': "token 3 ?net example_client = Some (Inr ?tok, example_client)"
    using tok by simp
  have "map_option fst ?G =
      Some (Inr [[(''id'', PInt 1)], [(''id'', PInt 2)], [(''id'', PInt 3)],
                 [(''id'', PInt 4)], [(''id'', PInt 5)]])"
    unfolding inst using res by simp
  moreover have "map_option (map req_params \<circ> sent \<circ> snd) ?G =
      Some [dialogs_params ?tok 1, dialogs_params ?tok 2, dialogs_params ?tok 3]"
    unfolding inst using sent3 by simp
  ultimately show ?thesis
    using tok' by simp
qed

section \<open>A project search for one page\<close>

text \<open>
  C10, as the code has it: \<^verbatim>\<open>get_projects\<close> with categories and a page first takes
  the token (from the cache when one is there, else by a sign-in over the network),
  then calls \<^verbatim>\<open>request\<close> once for that page. When that call returns a body, the
  result is exactly the records of that body, whatever its paging metadata says, and
  the client is left as that call left it: no further page is fetched. With a cached
  token and a first attempt that is not left by a \<^verbatim>\<open>KworkAuthException\<close>, a single
  network request is sent.
\<close>

theorem projects_one_page:
  assumes cats: "categories_ids \<noteq> []" and page: "page \<noteq> PNone"
    and tok: "token fuel net s = Some (Inr tok, s1)"
    and req: "request fuel net ''post'' (Some ''projects'') None 10 False
                ((''page'', page) #
                 common_params categories_ids price_from price_to hiring_from
                   kworks_filter_from kworks_filter_to query tok) s1
              = Some (Inr (PDict d), s2)"
  shows "get_projects fuel net model categories_ids price_from price_to hiring_from
           kworks_filter_from kworks_filter_to page query s =
           Some (records model (dict_get_default d ''response'' (PList [])), s2)
     \<and> (cached_token s \<noteq> PNone \<longrightarrow> s1 = s \<and> tok = cached_token s)
     \<and> ((\<forall>e. fst (attempt net ''post'' (Some ''projects'') None 10
                    (drop_none ((''page'', page) #
                       common_params categories_ids price_from price_to hiring_from
                         kworks_filter_from kworks_filter_to query tok))
                    (s1\<lparr>logs := logs s1 @
                       [Debug_Request ''post'' (Some ''projects'')
                          (sanitize (drop_none ((''page'', page) #
                             common_params categories_ids price_from price_to hiring_from
                               kworks_filter_from kworks_filter_to query tok)))]\<rparr>)) = Inl e
              \<longrightarrow> exn_class e \<noteq> KworkAuthException)
          \<longrightarrow> sent s2 = sent s1 @
                [mk_request s1 ''post'' (BASE_URL @ ''projects'')
                   (drop_none ((''page'', page) #
                      common_params categories_ids price_from price_to hiring_from
                        kworks_filter_from kworks_filter_to query tok)) 10])"
proof -
  have "get_projects fuel net model categories_ids price_from price_to hiring_from
           kworks_filter_from kworks_filter_to page query s =
           Some (records model (dict_get_default d ''response'' (PList [])), s2)"
    using cats page tok req by (simp add: get_projects_def py_get_def)
  moreover have "cached_token s \<noteq> PNone \<longrightarrow> s1 = s \<and> tok = cached_token s"
    using tok by (auto simp: token_unfold)
  moreover have "build_url (Some ''projects'') None = BASE_URL @ ''projects''"
    by (simp add: build_url_def)
  with request_sends_once [OF req]
  have "(\<forall>e. fst (attempt net ''post'' (Some ''projects'') None 10
                    (drop_none ((''page'', page) #
                       common_params categories_ids price_from price_to hiring_from
                         kworks_filter_from kworks_filter_to query tok))
                    (s1\<lparr>logs := logs s1 @
                       [Debug_Request ''post'' (Some ''projects'')
                          (sanitize (drop_none ((''page'', page) #
                             common_params categories_ids price_from price_to hiring_from
                               kworks_filter_from kworks_filter_to query tok)))]\<rparr>)) = Inl e
              \<longrightarrow> exn_class e \<noteq> KworkAuthException)
          \<longrightarrow> sent s2 = sent s1 @
                [mk_request s1 ''post'' (BASE_URL @ ''projects'')
                   (drop_none ((''page'', page) #
                      common_params categories_ids price_from price_to hiring_from
                        kworks_filter_from kworks_filter_to query tok)) 10]"
    by simp
  ultimately show ?thesis by blast
qed

theorem projects_one_page_witness:
  "[Cat_Int 11, Cat_Str ''41''] \<noteq> [] \<and> PInt 4 \<noteq> PNone
   \<and> token 1 net_projects example_client = Some (Inr (PStr ''stale''), example_client)
   \<and> map_option fst
        (get_projects 1 net_projects raw_model [Cat_Int 11, Cat_Str ''41''] PNone PNone PNone
           PNone PNone (PInt 4) PNone example_client)
       = Some (Inr [[(''id'', PInt 1)], [(''id'', PInt 2)]])
   \<and> map_option (sent \<circ> snd)
        (get_projects 1 net_projects raw_model [Cat_Int 11, Cat_Str ''41''] PNone PNone PNone
           PNone PNone (PInt 4) PNone example_client)
       = Some [mk_request example_client ''post'' (BASE_URL @ ''projects'')
                 [(''page'', PInt 4), (''categories'', PStr ''11,41''),
                  (''token'', PStr ''stale'')] 10]"
proof -
  let ?cats = "[Cat_Int 11, Cat_Str ''41'']"
  let ?cp = "common_params ?cats PNone PNone PNone PNone PNone PNone (PStr ''stale'')"
  let ?d = "[(''success'', PBool True), (''response'', PList [item 1, item 2]),
             (''paging'', PDict [(''pages'', PInt 7)])]"
  let ?R = "request 1 net_projects ''post'' (Some ''projects'') None 10 False
              ((''page'', PInt 4) # ?cp) example_client"
  let ?G = "get_projects 1 net_projects raw_model ?cats PNone PNone PNone PNone PNone (PInt 4)
              PNone example_client"
  have cats: "?cats \<noteq> []" and page: "PInt 4 \<noteq> PNone"
    by simp_all
  have tok: "token 1 net_projects example_client = Some (Inr (PStr ''stale''), example_client)"
    by (simp add: token_unfold example_client_def)
  have r: "map_option fst ?R = Some (Inr (PDict ?d))"
    by code_simp
  then have run: "?R = Some (Inr (PDict ?d), snd (the ?R))"
    by (rule some_pair)
  note inst = projects_one_page [OF cats page tok run, of raw_model]
  have recs: "records raw_model (dict_get_default ?d ''response'' (PList [])) =
      Inr [[(''id'', PInt 1)], [(''id'', PInt 2)]]"
    by code_simp
  have direct: "fst (attempt net_projects ''post'' (Some ''projects'') None 10
                    (drop_none ((''page'', PInt 4) # ?cp))
                    (example_client\<lparr>logs := logs example_client @
                       [Debug_Request ''post'' (Some ''projects'')
                          (sanitize (drop_none ((''page'', PInt 4) # ?cp)))]\<rparr>))
                = Inr (PDict ?d)"
    by code_simp
  have params: "drop_none ((''page'', PInt 4) # ?cp) =
      [(''page'', PInt 4), (''categories'', PStr ''11,41''), (''token'', PStr ''stale'')]"
    by code_simp
  have sent0: "sent example_client = []"
    by (simp add: example_client_def)
  from inst have g: "?G = Some (records raw_model (dict_get_default ?d ''response'' (PList [])),
      snd (the ?R))"
    by blast
  from inst direct have "sent (snd (the ?R)) = sent example_client @
      [mk_request example_client ''post'' (BASE_URL @ ''projects'')
         (drop_none ((''page'', PInt 4) # ?cp)) 10]"
    by simp
  then have s: "sent (snd (the ?R)) =
      [mk_request example_client ''post'' (BASE_URL @ ''projects'')
         [(''page'', PInt 4), (''categories'', PStr ''11,41''), (''token'', PStr ''stale'')] 10]"
    by (simp only: params sent0 append_Nil)
  have "map_option fst ?G = Some (Inr [[(''id'', PInt 1)], [(''id'', PInt 2)]])"
    unfolding g using recs by simp
  moreover have "map_option (sent \<circ> snd) ?G =
      Some [mk_request example_client ''post'' (BASE_URL @ ''projects'')
         [(''page'', PInt 4), (''categories'', PStr ''11,41''), (''token'', PStr ''stale'')] 10]"
    unfolding g using s by simp
  ultimately show ?thesis
    using tok by simp
qed

text \<open>
  The claim with exactly one network request fails on a client without a cached
  token: the sign-in goes out before the request for the page.
\<close>

theorem projects_one_page_counterexample:
  "map_option fst
     (get_projects 2 net_projects raw_model [Cat_Int 11, Cat_Str ''41''] PNone PNone PNone
        PNone PNone (PInt 4) PNone fresh_client)
     = Some (Inr [[(''id'', PInt 1)], [(''id'', PInt 2)]])
   \<and> map_option (map req_url \<circ> sent \<circ> snd)
        (get_projects 2 net_projects raw_model [Cat_Int 11, Cat_Str ''41''] PNone PNone PNone
           PNone PNone (PInt 4) PNone fresh_client)
       = Some [BASE_URL @ ''signIn'', BASE_URL @ ''projects'']"
  by code_simp

end
